theory Spec2Isabelle
  imports Main "HOL-Library.AList"
begin

section \<open>Python values\<close>

text \<open>
  The scripts pass around what \<^verbatim>\<open>json.loads\<close> produces: \<^verbatim>\<open>None\<close>, booleans, integers,
  strings, lists and dictionaries with string keys. A dictionary keeps its insertion
  order, so an object is an association list. Numbers with a fraction or an exponent are
  not part of the model. A Python \<^verbatim>\<open>str\<close> is a \<^typ>\<open>string\<close>; the string functions below are
  those of ASCII text.
\<close>

datatype json =
    JNull
  | JBool bool
  | JInt int
  | JStr string
  | JArr "json list"
  | JObj "(string \<times> json) list"

text \<open>The exceptions the modelled code can raise. \<open>TypeError\<close> carries its message, which
  \<^verbatim>\<open>execute_tool\<close> copies into its error descriptor; the texts follow CPython's.\<close>

datatype exn =
    TypeError string
  | AttributeError
  | KeyError
  | IndexError
  | JSONDecodeError

definition type_name :: "json \<Rightarrow> string" where
  "type_name v =
     (case v of JNull \<Rightarrow> ''NoneType'' | JBool b \<Rightarrow> ''bool'' | JInt i \<Rightarrow> ''int''
      | JStr s \<Rightarrow> ''str'' | JArr xs \<Rightarrow> ''list'' | JObj kvs \<Rightarrow> ''dict'')"

definition truthy :: "json \<Rightarrow> bool" where
  "truthy v =
     (case v of JNull \<Rightarrow> False | JBool b \<Rightarrow> b | JInt i \<Rightarrow> i \<noteq> 0
      | JStr s \<Rightarrow> s \<noteq> [] | JArr xs \<Rightarrow> xs \<noteq> [] | JObj kvs \<Rightarrow> kvs \<noteq> [])"

subsection \<open>String functions\<close>

definition is_space :: "char \<Rightarrow> bool" where
  "is_space c = (let n = (of_char c :: nat) in (9 \<le> n \<and> n \<le> 13) \<or> (28 \<le> n \<and> n \<le> 32))"

definition upper_char :: "char \<Rightarrow> char" where
  "upper_char c =
     (let n = (of_char c :: nat) in if 97 \<le> n \<and> n \<le> 122 then char_of (n - 32) else c)"

definition upper :: "string \<Rightarrow> string" where
  "upper s = map upper_char s"

definition strip :: "string \<Rightarrow> string" where
  "strip s = rev (dropWhile is_space (rev (dropWhile is_space s)))"

fun contains :: "string \<Rightarrow> string \<Rightarrow> bool" where
  "contains sub [] = (sub = [])"
| "contains sub (c # cs) = (take (length sub) (c # cs) = sub \<or> contains sub cs)"

fun split_on :: "char \<Rightarrow> string \<Rightarrow> string list" where
  "split_on d [] = [[]]"
| "split_on d (c # cs) =
     (if c = d then [] # split_on d cs
      else (case split_on d cs of p # ps \<Rightarrow> (c # p) # ps | [] \<Rightarrow> [[c]]))"

fun join :: "string \<Rightarrow> string list \<Rightarrow> string" where
  "join sep [] = []"
| "join sep [x] = x"
| "join sep (x # y # ys) = x @ sep @ join sep (y # ys)"

definition digit_char :: "nat \<Rightarrow> char" where
  "digit_char n = char_of (48 + n)"

function show_nat :: "nat \<Rightarrow> string" where
  "show_nat n = (if n < 10 then [digit_char n] else show_nat (n div 10) @ [digit_char (n mod 10)])"
  by pat_completeness auto
termination
  by (relation "measure id") auto

definition show_int :: "int \<Rightarrow> string" where
  "show_int i = (if i < 0 then CHR ''-'' # show_nat (nat (- i)) else show_nat (nat i))"

definition hex_char :: "nat \<Rightarrow> char" where
  "hex_char n = (if n < 10 then char_of (48 + n) else char_of (87 + n))"

definition hex2 :: "char \<Rightarrow> string" where
  "hex2 c = (let n = (of_char c :: nat) in [hex_char (n div 16), hex_char (n mod 16)])"

subsection \<open>\<^verbatim>\<open>str()\<close> and \<^verbatim>\<open>repr()\<close>\<close>

definition repr_char :: "char \<Rightarrow> char \<Rightarrow> string" where
  "repr_char q c =
     (let n = (of_char c :: nat) in
      if c = q \<or> c = CHR 0x5C then [CHR 0x5C, c]
      else if n = 10 then [CHR 0x5C, CHR ''n'']
      else if n = 13 then [CHR 0x5C, CHR ''r'']
      else if n = 9 then [CHR 0x5C, CHR ''t'']
      else if n < 32 \<or> n = 127 then [CHR 0x5C, CHR ''x''] @ hex2 c
      else [c])"

definition repr_str :: "string \<Rightarrow> string" where
  "repr_str s =
     (let q = (if CHR 0x27 \<in> set s \<and> CHR 0x22 \<notin> set s then CHR 0x22 else CHR 0x27)
      in q # concat (map (repr_char q) s) @ [q])"

fun py_repr :: "json \<Rightarrow> string" where
  "py_repr JNull = ''None''"
| "py_repr (JBool b) = (if b then ''True'' else ''False'')"
| "py_repr (JInt i) = show_int i"
| "py_repr (JStr s) = repr_str s"
| "py_repr (JArr xs) = ''['' @ join '', '' (map py_repr xs) @ '']''"
| "py_repr (JObj kvs) =
     ''{'' @ join '', '' (map (\<lambda>kv. repr_str (fst kv) @ '': '' @ py_repr (snd kv)) kvs) @ ''}''"

definition py_str :: "json \<Rightarrow> string" where
  "py_str v = (case v of JStr s \<Rightarrow> s | _ \<Rightarrow> py_repr v)"

subsection \<open>Operators on dynamically typed values\<close>

text \<open>\<^verbatim>\<open>k in v\<close> for a string \<open>k\<close>.\<close>

definition py_contains :: "string \<Rightarrow> json \<Rightarrow> exn + bool" where
  "py_contains k v =
     (case v of
        JObj kvs \<Rightarrow> Inr (k \<in> set (map fst kvs))
      | JStr s \<Rightarrow> Inr (contains k s)
      | JArr xs \<Rightarrow> Inr (JStr k \<in> set xs)
      | _ \<Rightarrow> Inl (TypeError (''argument of type '' @ repr_str (type_name v) @ '' is not iterable'')))"

text \<open>\<^verbatim>\<open>v.get(k, d)\<close>.\<close>

definition py_get :: "json \<Rightarrow> string \<Rightarrow> json \<Rightarrow> exn + json" where
  "py_get v k d =
     (case v of
        JObj kvs \<Rightarrow> Inr (case map_of kvs k of Some x \<Rightarrow> x | None \<Rightarrow> d)
      | _ \<Rightarrow> Inl AttributeError)"

text \<open>\<^verbatim>\<open>v[k]\<close> for a string \<open>k\<close>.\<close>

definition py_item :: "json \<Rightarrow> string \<Rightarrow> exn + json" where
  "py_item v k =
     (case v of
        JObj kvs \<Rightarrow> (case map_of kvs k of Some x \<Rightarrow> Inr x | None \<Rightarrow> Inl KeyError)
      | JStr s \<Rightarrow> Inl (TypeError (''string indices must be integers, not '' @ repr_str ''str''))
      | JArr xs \<Rightarrow> Inl (TypeError ''list indices must be integers or slices, not str'')
      | _ \<Rightarrow> Inl (TypeError (repr_str (type_name v) @ '' object is not subscriptable'')))"

text \<open>\<^verbatim>\<open>v[i]\<close> for an index \<open>i \<ge> 0\<close>.\<close>

definition py_index :: "json \<Rightarrow> nat \<Rightarrow> exn + json" where
  "py_index v i =
     (case v of
        JArr xs \<Rightarrow> if i < length xs then Inr (xs ! i) else Inl IndexError
      | JStr s \<Rightarrow> if i < length s then Inr (JStr [s ! i]) else Inl IndexError
      | JObj kvs \<Rightarrow> Inl KeyError
      | _ \<Rightarrow> Inl (TypeError (repr_str (type_name v) @ '' object is not subscriptable'')))"

definition py_len :: "json \<Rightarrow> exn + nat" where
  "py_len v =
     (case v of
        JArr xs \<Rightarrow> Inr (length xs)
      | JStr s \<Rightarrow> Inr (length s)
      | JObj kvs \<Rightarrow> Inr (length kvs)
      | _ \<Rightarrow> Inl (TypeError (''object of type '' @ repr_str (type_name v) @ '' has no len()'')))"

text \<open>The elements a \<^verbatim>\<open>for\<close> loop over \<open>v\<close> visits.\<close>

definition py_iter :: "json \<Rightarrow> exn + json list" where
  "py_iter v =
     (case v of
        JArr xs \<Rightarrow> Inr xs
      | JStr s \<Rightarrow> Inr (map (\<lambda>c. JStr [c]) s)
      | JObj kvs \<Rightarrow> Inr (map (\<lambda>kv. JStr (fst kv)) kvs)
      | _ \<Rightarrow> Inl (TypeError (repr_str (type_name v) @ '' object is not iterable'')))"

text \<open>\<^verbatim>\<open>v.upper()\<close>.\<close>

definition py_upper :: "json \<Rightarrow> exn + json" where
  "py_upper v = (case v of JStr s \<Rightarrow> Inr (JStr (upper s)) | _ \<Rightarrow> Inl AttributeError)"

section \<open>The JSON library\<close>

text \<open>
  \<^verbatim>\<open>json.loads\<close>, \<^verbatim>\<open>json.dumps\<close> and \<^verbatim>\<open>json.dump(..., indent=2)\<close> belong to Python's library,
  and the clock to the machine. The scripts are modelled over any such library:
  \<open>loads\<close> gives \<open>None\<close> where Python raises \<^verbatim>\<open>JSONDecodeError\<close>, and \<open>now_stamp k\<close> is what
  \<^verbatim>\<open>datetime.now().strftime('%Y%m%d_%H%M%S')\<close> returns the \<open>k\<close>-th time the clock is read.
\<close>

record env =
  loads :: "string \<Rightarrow> json option"
  dumps :: "json \<Rightarrow> string"
  dump_indent :: "json \<Rightarrow> string"
  now_stamp :: "nat \<Rightarrow> string"

subsection \<open>A decoder for worked examples\<close>

datatype token = TLBracket | TRBracket | TLBrace | TRBrace | TComma | TColon | TAtom json

datatype lexmode =
    Plain
  | InStr string
  | InEsc string
  | InUni string nat nat
  | InNum string
  | InWord string

definition is_digit :: "char \<Rightarrow> bool" where
  "is_digit c = (let n = (of_char c :: nat) in 48 \<le> n \<and> n \<le> 57)"

definition is_alpha :: "char \<Rightarrow> bool" where
  "is_alpha c =
     (let n = (of_char c :: nat) in (65 \<le> n \<and> n \<le> 90) \<or> (97 \<le> n \<and> n \<le> 122))"

definition hex_val :: "char \<Rightarrow> nat option" where
  "hex_val c =
     (let n = (of_char c :: nat) in
      if 48 \<le> n \<and> n \<le> 57 then Some (n - 48)
      else if 97 \<le> n \<and> n \<le> 102 then Some (n - 87)
      else if 65 \<le> n \<and> n \<le> 70 then Some (n - 55)
      else None)"

definition nat_of_digits :: "string \<Rightarrow> nat" where
  "nat_of_digits s = foldl (\<lambda>a c. 10 * a + ((of_char c :: nat) - 48)) 0 s"

definition num_token :: "string \<Rightarrow> json option" where
  "num_token s =
     (let neg = (s \<noteq> [] \<and> hd s = CHR ''-'');
          ds = (if neg then tl s else s)
      in if ds = [] \<or> \<not> list_all is_digit ds \<or> (hd ds = CHR ''0'' \<and> 1 < length ds) then None
         else Some (JInt (if neg then - int (nat_of_digits ds) else int (nat_of_digits ds))))"

definition word_token :: "string \<Rightarrow> json option" where
  "word_token w =
     (if w = ''null'' then Some JNull
      else if w = ''true'' then Some (JBool True)
      else if w = ''false'' then Some (JBool False)
      else None)"

definition plain_step :: "token list \<Rightarrow> char \<Rightarrow> (lexmode \<times> token list) option" where
  "plain_step acc c =
     (if c = CHR '' '' \<or> c = CHR 0x09 \<or> c = CHR 0x0A \<or> c = CHR 0x0D then Some (Plain, acc)
      else if c = CHR ''['' then Some (Plain, TLBracket # acc)
      else if c = CHR '']'' then Some (Plain, TRBracket # acc)
      else if c = CHR ''{'' then Some (Plain, TLBrace # acc)
      else if c = CHR ''}'' then Some (Plain, TRBrace # acc)
      else if c = CHR '','' then Some (Plain, TComma # acc)
      else if c = CHR '':'' then Some (Plain, TColon # acc)
      else if c = CHR 0x22 then Some (InStr [], acc)
      else if c = CHR ''-'' \<or> is_digit c then Some (InNum [c], acc)
      else if is_alpha c then Some (InWord [c], acc)
      else None)"

definition unescape :: "char \<Rightarrow> char option" where
  "unescape c =
     (if c = CHR 0x22 \<or> c = CHR 0x5C \<or> c = CHR ''/'' then Some c
      else if c = CHR ''b'' then Some (CHR 0x08)
      else if c = CHR ''f'' then Some (CHR 0x0C)
      else if c = CHR ''n'' then Some (CHR 0x0A)
      else if c = CHR ''r'' then Some (CHR 0x0D)
      else if c = CHR ''t'' then Some (CHR 0x09)
      else None)"

fun lex_step :: "lexmode \<Rightarrow> token list \<Rightarrow> char \<Rightarrow> (lexmode \<times> token list) option" where
  "lex_step Plain acc c = plain_step acc c"
| "lex_step (InStr s) acc c =
     (if c = CHR 0x22 then Some (Plain, TAtom (JStr (rev s)) # acc)
      else if c = CHR 0x5C then Some (InEsc s, acc)
      else if (of_char c :: nat) < 32 then None
      else Some (InStr (c # s), acc))"
| "lex_step (InEsc s) acc c =
     (if c = CHR ''u'' then Some (InUni s 4 0, acc)
      else (case unescape c of Some d \<Rightarrow> Some (InStr (d # s), acc) | None \<Rightarrow> None))"
| "lex_step (InUni s k v) acc c =
     (case hex_val c of
        None \<Rightarrow> None
      | Some h \<Rightarrow>
          (if k = 1 then (if 16 * v + h < 128 then Some (InStr (char_of (16 * v + h) # s), acc) else None)
           else Some (InUni s (k - 1) (16 * v + h), acc)))"
| "lex_step (InNum ds) acc c =
     (if is_digit c then Some (InNum (c # ds), acc)
      else (case num_token (rev ds) of
              None \<Rightarrow> None
            | Some t \<Rightarrow> plain_step (TAtom t # acc) c))"
| "lex_step (InWord w) acc c =
     (if is_alpha c then Some (InWord (c # w), acc)
      else (case word_token (rev w) of
              None \<Rightarrow> None
            | Some t \<Rightarrow> plain_step (TAtom t # acc) c))"

fun lex :: "lexmode \<Rightarrow> token list \<Rightarrow> string \<Rightarrow> token list option" where
  "lex m acc [] =
     (case m of
        Plain \<Rightarrow> Some (rev acc)
      | InNum ds \<Rightarrow> map_option (\<lambda>t. rev (TAtom t # acc)) (num_token (rev ds))
      | InWord w \<Rightarrow> map_option (\<lambda>t. rev (TAtom t # acc)) (word_token (rev w))
      | _ \<Rightarrow> None)"
| "lex m acc (c # cs) =
     (case lex_step m acc c of None \<Rightarrow> None | Some (m', acc') \<Rightarrow> lex m' acc' cs)"

datatype frame =
    InArr "json list"
  | InObj "(string \<times> json) list"
  | InObjKey "(string \<times> json) list" string

datatype pmode =
    WantValue
  | WantValueOrClose
  | WantKeyOrClose
  | WantKey
  | WantColon string
  | AfterValue
  | Finished json

definition deliver :: "json \<Rightarrow> frame list \<Rightarrow> (frame list \<times> pmode) option" where
  "deliver v st =
     (case st of
        [] \<Rightarrow> Some ([], Finished v)
      | InArr vs # r \<Rightarrow> Some (InArr (vs @ [v]) # r, AfterValue)
      | InObjKey ms k # r \<Rightarrow> Some (InObj (AList.update k v ms) # r, AfterValue)
      | InObj ms # r \<Rightarrow> None)"

definition value_token :: "frame list \<Rightarrow> token \<Rightarrow> (frame list \<times> pmode) option" where
  "value_token st t =
     (case t of
        TAtom a \<Rightarrow> deliver a st
      | TLBracket \<Rightarrow> Some (InArr [] # st, WantValueOrClose)
      | TLBrace \<Rightarrow> Some (InObj [] # st, WantKeyOrClose)
      | _ \<Rightarrow> None)"

definition close_frame :: "frame list \<Rightarrow> token \<Rightarrow> (frame list \<times> pmode) option" where
  "close_frame st t =
     (case st of
        InArr vs # r \<Rightarrow> if t = TRBracket then deliver (JArr vs) r else None
      | InObj ms # r \<Rightarrow> if t = TRBrace then deliver (JObj ms) r else None
      | _ \<Rightarrow> None)"

definition key_token :: "frame list \<Rightarrow> token \<Rightarrow> (frame list \<times> pmode) option" where
  "key_token st t = (case t of TAtom (JStr k) \<Rightarrow> Some (st, WantColon k) | _ \<Rightarrow> None)"

fun parse_step :: "frame list \<Rightarrow> pmode \<Rightarrow> token \<Rightarrow> (frame list \<times> pmode) option" where
  "parse_step st WantValue t = value_token st t"
| "parse_step st WantValueOrClose t =
     (if t = TRBracket then close_frame st t else value_token st t)"
| "parse_step st WantKeyOrClose t =
     (if t = TRBrace then close_frame st t else key_token st t)"
| "parse_step st WantKey t = key_token st t"
| "parse_step st (WantColon k) t =
     (case st of
        InObj ms # r \<Rightarrow> if t = TColon then Some (InObjKey ms k # r, WantValue) else None
      | _ \<Rightarrow> None)"
| "parse_step st AfterValue t =
     (if t = TComma then
        (case st of
           InArr vs # r \<Rightarrow> Some (st, WantValue)
         | InObj ms # r \<Rightarrow> Some (st, WantKey)
         | _ \<Rightarrow> None)
      else close_frame st t)"
| "parse_step st (Finished v) t = None"

fun parse :: "frame list \<Rightarrow> pmode \<Rightarrow> token list \<Rightarrow> json option" where
  "parse st m [] = (case m of Finished v \<Rightarrow> Some v | _ \<Rightarrow> None)"
| "parse st m (t # ts) =
     (case parse_step st m t of None \<Rightarrow> None | Some (st', m') \<Rightarrow> parse st' m' ts)"

definition json_loads :: "string \<Rightarrow> json option" where
  "json_loads s = (case lex Plain [] s of None \<Rightarrow> None | Some ts \<Rightarrow> parse [] WantValue ts)"

subsection \<open>An encoder for worked examples\<close>

definition escape_char :: "char \<Rightarrow> string" where
  "escape_char c =
     (let n = (of_char c :: nat) in
      if c = CHR 0x22 \<or> c = CHR 0x5C then [CHR 0x5C, c]
      else if n = 10 then [CHR 0x5C, CHR ''n'']
      else if n = 13 then [CHR 0x5C, CHR ''r'']
      else if n = 9 then [CHR 0x5C, CHR ''t'']
      else if n = 8 then [CHR 0x5C, CHR ''b'']
      else if n = 12 then [CHR 0x5C, CHR ''f'']
      else if n < 32 \<or> 127 \<le> n then [CHR 0x5C, CHR ''u'', CHR ''0'', CHR ''0''] @ hex2 c
      else [c])"

definition quote :: "string \<Rightarrow> string" where
  "quote s = CHR 0x22 # concat (map escape_char s) @ [CHR 0x22]"

fun json_dumps :: "json \<Rightarrow> string" where
  "json_dumps JNull = ''null''"
| "json_dumps (JBool b) = (if b then ''true'' else ''false'')"
| "json_dumps (JInt i) = show_int i"
| "json_dumps (JStr s) = quote s"
| "json_dumps (JArr xs) = ''['' @ join '', '' (map json_dumps xs) @ '']''"
| "json_dumps (JObj kvs) =
     ''{'' @ join '', '' (map (\<lambda>kv. quote (fst kv) @ '': '' @ json_dumps (snd kv)) kvs) @ ''}''"

fun json_dump_indent :: "nat \<Rightarrow> json \<Rightarrow> string" where
  "json_dump_indent lvl (JArr xs) =
     (if xs = [] then ''[]''
      else ''['' @ [CHR 0x0A]
           @ join ('','' @ [CHR 0x0A])
               (map (\<lambda>x. replicate (2 * Suc lvl) CHR '' '' @ json_dump_indent (Suc lvl) x) xs)
           @ [CHR 0x0A] @ replicate (2 * lvl) CHR '' '' @ '']'')"
| "json_dump_indent lvl (JObj kvs) =
     (if kvs = [] then ''{}''
      else ''{'' @ [CHR 0x0A]
           @ join ('','' @ [CHR 0x0A])
               (map (\<lambda>kv. replicate (2 * Suc lvl) CHR '' '' @ quote (fst kv) @ '': ''
                           @ json_dump_indent (Suc lvl) (snd kv)) kvs)
           @ [CHR 0x0A] @ replicate (2 * lvl) CHR '' '' @ ''}'')"
| "json_dump_indent lvl v = json_dumps v"

text \<open>The library used in the worked examples, over a given clock.\<close>

definition python :: "(nat \<Rightarrow> string) \<Rightarrow> env" where
  "python clock =
     \<lparr>loads = json_loads, dumps = json_dumps, dump_indent = json_dump_indent 0, now_stamp = clock\<rparr>"

section \<open>The quiz tools\<close>

text \<open>
  The tools read the clock and read and write files under \<^verbatim>\<open>OUTPUT_DIR\<close>. The world is the
  file system, a map from a path to the text of the file there, and the number of clock
  readings so far. A tool takes the world and returns what it returns or raises, with
  the world it leaves. Paths are compared as written.
\<close>

record world =
  files :: "string \<rightharpoonup> string"
  clock_reads :: nat

type_synonym tool_result = "(exn + json) \<times> world"

definition and_then :: "exn + 'a \<Rightarrow> ('a \<Rightarrow> exn + 'b) \<Rightarrow> exn + 'b" where
  "and_then m f = (case m of Inl e \<Rightarrow> Inl e | Inr v \<Rightarrow> f v)"

text \<open>\<^verbatim>\<open>OUTPUT_DIR / name\<close>, with \<^verbatim>\<open>OUTPUT_DIR = Path("quiz_data")\<close>.\<close>

definition output_path :: "string \<Rightarrow> string" where
  "output_path name =
     (if name \<noteq> [] \<and> hd name = CHR ''/'' then name else ''quiz_data/'' @ name)"

definition error_result :: "string \<Rightarrow> json" where
  "error_result msg = JObj [(''error'', JStr msg)]"

subsection \<open>\<^verbatim>\<open>create_quiz\<close>\<close>

definition sentences_of :: "string \<Rightarrow> string list" where
  "sentences_of source_text =
     map strip (filter (\<lambda>s. 10 < length (strip s)) (split_on CHR ''.'' source_text))"

definition question :: "string list \<Rightarrow> nat \<Rightarrow> json" where
  "question sentences i =
     (let topic = (if sentences \<noteq> [] then take 50 (sentences ! (i mod length sentences))
                   else ''the content'')
      in JObj [(''id'', JInt (int i + 1)),
               (''question'',
                  JStr (''What is the significance of: '' @ [CHR 0x27] @ topic @ ''...''
                        @ [CHR 0x27] @ ''?'')),
               (''options'',
                  JArr [JStr ''A) Key concept'', JStr ''B) Not mentioned'', JStr ''C) Minor detail'']),
               (''correct_answer'', JStr ''A'')])"

text \<open>How often \<^verbatim>\<open>for i in range(min(num_questions, m))\<close> runs, for an integer \<open>m \<ge> 1\<close>.\<close>

definition range_min :: "json \<Rightarrow> nat \<Rightarrow> exn + nat" where
  "range_min num_questions m =
     (case num_questions of
        JInt n \<Rightarrow> Inr (if int m < n then m else nat n)
      | JBool b \<Rightarrow> Inr (if b then 1 else 0)
      | _ \<Rightarrow> Inl (TypeError (repr_str ''<'' @ '' not supported between instances of '' @ repr_str ''int''
                              @ '' and '' @ repr_str (type_name num_questions))))"

definition create_quiz :: "json \<Rightarrow> json \<Rightarrow> exn + json" where
  "create_quiz source_text num_questions =
     (case source_text of
        JStr text \<Rightarrow>
          (let sentences = sentences_of text in
           and_then (range_min num_questions (max 1 (length sentences))) (\<lambda>n.
             let questions = map (question sentences) [0..<n]
             in Inr (JObj [(''questions'', JArr questions),
                           (''count'', JInt (int (length questions)))])))
      | _ \<Rightarrow> Inl AttributeError)"

subsection \<open>\<^verbatim>\<open>save_quiz\<close> and \<^verbatim>\<open>load_quiz\<close>\<close>

text \<open>\<^verbatim>\<open>open(filepath, 'w')\<close> empties the file before \<^verbatim>\<open>quiz_data["questions"]\<close> is read.\<close>

definition save_quiz :: "env \<Rightarrow> json \<Rightarrow> world \<Rightarrow> tool_result" where
  "save_quiz E quiz_data w =
     (if \<not> truthy quiz_data then (Inr (error_result ''Invalid quiz_data''), w)
      else
        (case py_contains ''questions'' quiz_data of
           Inl e \<Rightarrow> (Inl e, w)
         | Inr False \<Rightarrow> (Inr (error_result ''Invalid quiz_data''), w)
         | Inr True \<Rightarrow>
             (let quiz_id = ''quiz_'' @ now_stamp E (clock_reads w);
                  filepath = output_path (quiz_id @ ''.json'');
                  w1 = w\<lparr>files := (files w)(filepath \<mapsto> []), clock_reads := Suc (clock_reads w)\<rparr>
              in case py_item quiz_data ''questions'' of
                   Inl e \<Rightarrow> (Inl e, w1)
                 | Inr questions \<Rightarrow>
                     (Inr (JObj [(''quiz_id'', JStr quiz_id), (''path'', JStr filepath)]),
                      w1\<lparr>files := (files w1)(filepath \<mapsto>
                            dump_indent E (JObj [(''quiz_id'', JStr quiz_id),
                                                   (''questions'', questions)]))\<rparr>))))"

text \<open>The \<^verbatim>\<open>print\<close> before \<^verbatim>\<open>return data\<close> evaluates \<^verbatim>\<open>len(data.get('questions', []))\<close>.\<close>

definition load_quiz :: "env \<Rightarrow> json \<Rightarrow> world \<Rightarrow> tool_result" where
  "load_quiz E quiz_id w =
     (case files w (output_path (py_str quiz_id @ ''.json'')) of
        None \<Rightarrow> (Inr (error_result (''Quiz not found: '' @ py_str quiz_id)), w)
      | Some text \<Rightarrow>
          (case loads E text of
             None \<Rightarrow> (Inl JSONDecodeError, w)
           | Some data \<Rightarrow>
               (case and_then (py_get data ''questions'' (JArr [])) py_len of
                  Inl e \<Rightarrow> (Inl e, w)
                | Inr n \<Rightarrow> (Inr data, w))))"

subsection \<open>\<^verbatim>\<open>grade_responses\<close>\<close>

definition tick :: string where
  "tick = [CHR 0xE2, CHR 0x9C, CHR 0x93]"

definition cross :: string where
  "cross = [CHR 0xE2, CHR 0x9C, CHR 0x97]"

text \<open>\<^verbatim>\<open>responses[i].upper()[0] if i < len(responses) else "X"\<close>.\<close>

definition user_answer :: "json \<Rightarrow> nat \<Rightarrow> exn + json" where
  "user_answer responses i =
     and_then (py_len responses) (\<lambda>n.
       if i < n then
         and_then (py_index responses i) (\<lambda>r. and_then (py_upper r) (\<lambda>u. py_index u 0))
       else Inr (JStr ''X''))"

text \<open>\<^verbatim>\<open>q["correct_answer"][0]\<close>.\<close>

definition correct_answer :: "json \<Rightarrow> exn + json" where
  "correct_answer q = and_then (py_item q ''correct_answer'') (\<lambda>a. py_index a 0)"

definition detail :: "nat \<Rightarrow> json \<Rightarrow> json \<Rightarrow> json" where
  "detail i user_ans correct =
     JObj [(''q'', JInt (int i + 1)), (''user'', user_ans), (''correct'', correct),
           (''result'', JStr (if user_ans = correct then tick else cross))]"

text \<open>The loop \<^verbatim>\<open>for i, q in enumerate(questions)\<close>, from index \<open>i\<close> on.\<close>

fun grade_loop :: "json \<Rightarrow> nat \<Rightarrow> json list \<Rightarrow> nat \<Rightarrow> json list \<Rightarrow> exn + nat \<times> json list" where
  "grade_loop responses i [] score details = Inr (score, details)"
| "grade_loop responses i (q # qs) score details =
     and_then (user_answer responses i) (\<lambda>user_ans.
     and_then (correct_answer q) (\<lambda>correct.
       grade_loop responses (Suc i) qs
         (if user_ans = correct then score + 1 else score)
         (details @ [detail i user_ans correct])))"

definition grade :: "json \<Rightarrow> json \<Rightarrow> json \<Rightarrow> exn + json" where
  "grade quiz_id quiz responses =
     and_then (py_get quiz ''questions'' (JArr [])) (\<lambda>questions.
     and_then (py_iter questions) (\<lambda>qs.
     and_then (grade_loop responses 0 qs 0 []) (\<lambda>(score, details).
     and_then (py_len questions) (\<lambda>total.
       Inr (JObj [(''quiz_id'', quiz_id), (''score'', JInt (int score)),
                  (''total'', JInt (int total)), (''details'', JArr details)])))))"

definition grade_responses :: "env \<Rightarrow> json \<Rightarrow> json \<Rightarrow> world \<Rightarrow> tool_result" where
  "grade_responses E quiz_id responses w =
     (case load_quiz E quiz_id w of
        (Inl e, w') \<Rightarrow> (Inl e, w')
      | (Inr quiz, w') \<Rightarrow>
          (case py_contains ''error'' quiz of
             Inl e \<Rightarrow> (Inl e, w')
           | Inr True \<Rightarrow> (Inr quiz, w')
           | Inr False \<Rightarrow> (grade quiz_id quiz responses, w')))"

subsection \<open>\<^verbatim>\<open>create_report\<close>\<close>

definition report_row :: "json \<Rightarrow> exn + string" where
  "report_row d =
     and_then (py_item d ''q'') (\<lambda>q.
     and_then (py_item d ''user'') (\<lambda>user.
     and_then (py_item d ''correct'') (\<lambda>correct.
     and_then (py_item d ''result'') (\<lambda>result.
       Inr (''| '' @ py_str q @ '' | '' @ py_str user @ '' | '' @ py_str correct @ '' | ''
            @ py_str result @ '' |'' @ [CHR 0x0A])))))"

fun report_rows :: "json list \<Rightarrow> string \<Rightarrow> exn + string" where
  "report_rows [] content = Inr content"
| "report_rows (d # ds) content =
     and_then (report_row d) (\<lambda>row. report_rows ds (content @ row))"

definition report_head :: "json \<Rightarrow> json \<Rightarrow> exn + string" where
  "report_head quiz_id grading_results =
     and_then (py_item grading_results ''score'') (\<lambda>score.
     and_then (py_item grading_results ''total'') (\<lambda>total.
       Inr (''# Quiz Report: '' @ py_str quiz_id @ [CHR 0x0A]
            @ ''**Score:** '' @ py_str score @ ''/'' @ py_str total @ [CHR 0x0A, CHR 0x0A]
            @ ''## Details'' @ [CHR 0x0A]
            @ ''| Q | Your Answer | Correct | Result |'' @ [CHR 0x0A]
            @ ''|---|-------------|---------|--------|'' @ [CHR 0x0A])))"

definition create_report :: "json \<Rightarrow> json \<Rightarrow> world \<Rightarrow> tool_result" where
  "create_report quiz_id grading_results w =
     (if \<not> truthy grading_results then (Inr (error_result ''Invalid grading results''), w)
      else
        (case py_contains ''score'' grading_results of
           Inl e \<Rightarrow> (Inl e, w)
         | Inr False \<Rightarrow> (Inr (error_result ''Invalid grading results''), w)
         | Inr True \<Rightarrow>
             (let filepath = output_path (py_str quiz_id @ ''_report.md'') in
              case and_then (report_head quiz_id grading_results) (\<lambda>head.
                   and_then (py_get grading_results ''details'' (JArr [])) (\<lambda>details.
                   and_then (py_iter details) (\<lambda>ds. report_rows ds head))) of
                Inl e \<Rightarrow> (Inl e, w)
              | Inr content \<Rightarrow>
                  (Inr (JObj [(''path'', JStr filepath)]),
                   w\<lparr>files := (files w)(filepath \<mapsto> content)\<rparr>))))"

subsection \<open>The registry and the call \<^verbatim>\<open>TOOLS[name](**arguments)\<close>\<close>

text \<open>
  \<^verbatim>\<open>f(**arguments)\<close> for a function \<open>f\<close> whose parameters are \<open>params\<close>, each with its default
  if it has one: the arguments must be a mapping, name no other parameter, and give every
  parameter without a default.
\<close>

definition bind_kwargs ::
  "string \<Rightarrow> (string \<times> json option) list \<Rightarrow> json \<Rightarrow> exn + (string \<Rightarrow> json)" where
  "bind_kwargs fname params arguments =
     (case arguments of
        JObj kvs \<Rightarrow>
          (case filter (\<lambda>k. k \<notin> set (map fst params)) (map fst kvs) of
             k # ks \<Rightarrow>
               Inl (TypeError (fname @ ''() got an unexpected keyword argument '' @ repr_str k))
           | [] \<Rightarrow>
               (case filter (\<lambda>p. snd p = None \<and> map_of kvs (fst p) = None) params of
                  [] \<Rightarrow>
                    Inr (\<lambda>p. case map_of kvs p of
                               Some v \<Rightarrow> v
                             | None \<Rightarrow> (case map_of params p of Some (Some d) \<Rightarrow> d | _ \<Rightarrow> JNull))
                | m # ms \<Rightarrow>
                    Inl (TypeError (fname @ ''() missing '' @ show_nat (length (m # ms))
                          @ '' required positional argument'' @ (if ms = [] then [] else ''s'')
                          @ '': '' @ join '' and '' (map (\<lambda>p. repr_str (fst p)) (m # ms))))))
      | _ \<Rightarrow>
          Inl (TypeError (fname @ ''() argument after ** must be a mapping, not ''
                @ type_name arguments)))"

type_synonym tool = "json \<Rightarrow> world \<Rightarrow> tool_result"

definition call_create_quiz :: tool where
  "call_create_quiz arguments w =
     (and_then (bind_kwargs ''create_quiz'' [(''source_text'', None), (''num_questions'', None)] arguments)
        (\<lambda>kw. create_quiz (kw ''source_text'') (kw ''num_questions'')), w)"

definition call_save_quiz :: "env \<Rightarrow> tool" where
  "call_save_quiz E arguments w =
     (case bind_kwargs ''save_quiz'' [(''quiz_data'', None)] arguments of
        Inl e \<Rightarrow> (Inl e, w)
      | Inr kw \<Rightarrow> save_quiz E (kw ''quiz_data'') w)"

definition call_load_quiz :: "env \<Rightarrow> tool" where
  "call_load_quiz E arguments w =
     (case bind_kwargs ''load_quiz'' [(''quiz_id'', None)] arguments of
        Inl e \<Rightarrow> (Inl e, w)
      | Inr kw \<Rightarrow> load_quiz E (kw ''quiz_id'') w)"

definition call_grade_responses :: "env \<Rightarrow> tool" where
  "call_grade_responses E arguments w =
     (case bind_kwargs ''grade_responses'' [(''quiz_id'', None), (''responses'', None)] arguments of
        Inl e \<Rightarrow> (Inl e, w)
      | Inr kw \<Rightarrow> grade_responses E (kw ''quiz_id'') (kw ''responses'') w)"

definition call_create_report :: tool where
  "call_create_report arguments w =
     (case bind_kwargs ''create_report'' [(''quiz_id'', None), (''grading_results'', None)] arguments of
        Inl e \<Rightarrow> (Inl e, w)
      | Inr kw \<Rightarrow> create_report (kw ''quiz_id'') (kw ''grading_results'') w)"

definition TOOLS :: "env \<Rightarrow> (string \<times> tool) list" where
  "TOOLS E =
     [(''create_quiz'', call_create_quiz),
      (''save_quiz'', call_save_quiz E),
      (''load_quiz'', call_load_quiz E),
      (''grade_responses'', call_grade_responses E),
      (''create_report'', call_create_report)]"

text \<open>\<^verbatim>\<open>name in TOOLS\<close> and \<^verbatim>\<open>TOOLS[name]\<close>: a list or a dictionary cannot be hashed, and no
  other value equals a string key.\<close>

definition registry_lookup :: "(string \<times> tool) list \<Rightarrow> json \<Rightarrow> exn + tool option" where
  "registry_lookup tools name =
     (case name of
        JStr s \<Rightarrow> Inr (map_of tools s)
      | JArr xs \<Rightarrow> Inl (TypeError (''unhashable type: '' @ repr_str ''list''))
      | JObj kvs \<Rightarrow> Inl (TypeError (''unhashable type: '' @ repr_str ''dict''))
      | _ \<Rightarrow> Inr None)"

text \<open>\<^verbatim>\<open>execute_tool\<close> of \<^verbatim>\<open>quiz_slm_fixed.py\<close>: the membership test stands outside the
  \<^verbatim>\<open>try\<close>, and the handler takes \<^verbatim>\<open>TypeError\<close> only.\<close>

definition execute_tool :: "env \<Rightarrow> json \<Rightarrow> json \<Rightarrow> world \<Rightarrow> tool_result" where
  "execute_tool E name arguments w =
     (case registry_lookup (TOOLS E) name of
        Inl e \<Rightarrow> (Inl e, w)
      | Inr None \<Rightarrow> (Inr (error_result (''Unknown tool: '' @ py_str name)), w)
      | Inr (Some f) \<Rightarrow>
          (case f arguments w of
             (Inl (TypeError msg), w') \<Rightarrow>
               (Inr (error_result (''Invalid arguments for '' @ py_str name @ '': '' @ msg)), w')
           | r \<Rightarrow> r))"

section \<open>The embedded-text encoding\<close>

text \<open>
  \<^verbatim>\<open>re.search(r'functools\s*\[(.*)\]', text, re.DOTALL)\<close> tries each start position from the
  left. At one position, \<open>match_head\<close> is the marker, white space and the opening bracket;
  the greedy group then runs to the last closing bracket of the text, the lazy group
  \<^verbatim>\<open>(.*?)\<close> of \<^verbatim>\<open>compare_modes.py\<close> to the first. The result is \<^verbatim>\<open>match.group(1)\<close>.
\<close>

definition match_head :: "string \<Rightarrow> string option" where
  "match_head s =
     (if take 9 s = ''functools'' then
        (case dropWhile is_space (drop 9 s) of
           c # r \<Rightarrow> if c = CHR ''['' then Some r else None
         | [] \<Rightarrow> None)
      else None)"

definition greedy_group :: "string \<Rightarrow> string option" where
  "greedy_group r =
     (if CHR '']'' \<in> set r then Some (rev (tl (dropWhile (\<lambda>c. c \<noteq> CHR '']'') (rev r))))
      else None)"

definition lazy_group :: "string \<Rightarrow> string option" where
  "lazy_group r =
     (if CHR '']'' \<in> set r then Some (takeWhile (\<lambda>c. c \<noteq> CHR '']'') r) else None)"

fun re_search :: "(string \<Rightarrow> string option) \<Rightarrow> string \<Rightarrow> string option" where
  "re_search grp [] = None"
| "re_search grp (c # cs) =
     (case match_head (c # cs) of
        None \<Rightarrow> re_search grp cs
      | Some r \<Rightarrow> (case grp r of None \<Rightarrow> re_search grp cs | Some g \<Rightarrow> Some g))"

text \<open>\<^verbatim>\<open>extract_functools\<close> of \<^verbatim>\<open>quiz_slm_fixed.py\<close>; \<open>None\<close> is Python's \<^verbatim>\<open>None\<close>.\<close>

definition extract_functools :: "env \<Rightarrow> string \<Rightarrow> json option" where
  "extract_functools E response =
     (if response = [] then None
      else
        (case re_search greedy_group response of
           None \<Rightarrow> None
         | Some g \<Rightarrow>
             (case loads E (''['' @ g @ '']'') of
                None \<Rightarrow> None
              | Some calls \<Rightarrow> if truthy calls then Some calls else None)))"

section \<open>The completion endpoint and the conversation\<close>

record tool_call =
  call_id :: string
  function_name :: string
  function_arguments :: string

text \<open>\<^verbatim>\<open>response.choices[0].message\<close>: the text, which may be \<^verbatim>\<open>None\<close>, and the structured
  calls, which may be \<^verbatim>\<open>None\<close>.\<close>

record response =
  message_content :: "string option"
  message_tool_calls :: "tool_call list option"

datatype turn =
    Turn string string
  | AssistantTurn response
  | ToolTurn string string string

text \<open>The endpoint answers a conversation, given the names of the tools declared to it.\<close>

type_synonym client = "string list \<Rightarrow> turn list \<Rightarrow> response"

definition schema_names :: "string list" where
  "schema_names = [''create_quiz'', ''save_quiz'', ''load_quiz'', ''grade_responses'', ''create_report'']"

text \<open>\<^verbatim>\<open>[s for s in TOOL_SCHEMAS if s["function"]["name"] in tools]\<close>, a schema given by its name.\<close>

definition tool_schemas :: "string list \<Rightarrow> string list" where
  "tool_schemas tools = filter (\<lambda>n. n \<in> set tools) schema_names"

text \<open>
  What one run of an agent holds: the conversation, the context, the world, and two
  counters that the code does not keep, the requests sent to the endpoint and whether
  the loop left through \<^verbatim>\<open>break\<close>.
\<close>

record agent_state =
  messages :: "turn list"
  agent_context :: "string \<rightharpoonup> json"
  state_world :: world
  round_trips :: nat
  finished :: bool

text \<open>A run ends with the exception that left it, if one did, and the state then.\<close>

type_synonym agent_result = "exn option \<times> agent_state"

definition or_empty :: "string option \<Rightarrow> string" where
  "or_empty c = (case c of None \<Rightarrow> [] | Some s \<Rightarrow> s)"

text \<open>\<^verbatim>\<open>tool_name == n and k in result\<close>.\<close>

definition named_with :: "json \<Rightarrow> json \<Rightarrow> string \<Rightarrow> string \<Rightarrow> exn + bool" where
  "named_with tool_name result n k =
     (if tool_name = JStr n then py_contains k result else Inr False)"

definition update_context :: "json \<Rightarrow> json \<Rightarrow> (string \<rightharpoonup> json) \<Rightarrow> exn + (string \<rightharpoonup> json)" where
  "update_context tool_name result ctx =
     and_then (named_with tool_name result ''create_quiz'' ''questions'') (\<lambda>c1.
       if c1 then Inr (ctx(''quiz_data'' \<mapsto> result))
       else and_then (named_with tool_name result ''save_quiz'' ''quiz_id'') (\<lambda>c2.
         if c2 then and_then (py_item result ''quiz_id'') (\<lambda>v. Inr (ctx(''quiz_id'' \<mapsto> v)))
         else and_then (named_with tool_name result ''grade_responses'' ''score'') (\<lambda>c3.
           if c3 then Inr (ctx(''grading_results'' \<mapsto> result))
           else and_then (named_with tool_name result ''create_report'' ''path'') (\<lambda>c4.
             if c4 then and_then (py_item result ''path'') (\<lambda>v. Inr (ctx(''report_path'' \<mapsto> v)))
             else Inr ctx))))"

section \<open>The agent of \<^verbatim>\<open>quiz_slm_fixed.py\<close>\<close>

definition observation :: "env \<Rightarrow> json \<Rightarrow> json \<Rightarrow> turn" where
  "observation E tool_name result =
     Turn ''user'' (''Tool '' @ [CHR 0x27] @ py_str tool_name @ [CHR 0x27] @ '' returned: ''
                    @ dumps E result)"

text \<open>The body of \<^verbatim>\<open>for call in func_calls\<close>.\<close>

definition run_call :: "env \<Rightarrow> json \<Rightarrow> agent_state \<Rightarrow> agent_result" where
  "run_call E call st =
     (case py_get call ''name'' JNull of
        Inl e \<Rightarrow> (Some e, st)
      | Inr tool_name \<Rightarrow>
          (case py_get call ''arguments'' (JObj []) of
             Inl e \<Rightarrow> (Some e, st)
           | Inr arguments \<Rightarrow>
               (case execute_tool E tool_name arguments (state_world st) of
                  (Inl e, w) \<Rightarrow> (Some e, st\<lparr>state_world := w\<rparr>)
                | (Inr result, w) \<Rightarrow>
                    (case update_context tool_name result (agent_context st) of
                       Inl e \<Rightarrow> (Some e, st\<lparr>state_world := w\<rparr>)
                     | Inr ctx \<Rightarrow>
                         (None, st\<lparr>messages := messages st @ [observation E tool_name result],
                                     agent_context := ctx, state_world := w\<rparr>)))))"

fun run_calls :: "env \<Rightarrow> json list \<Rightarrow> agent_state \<Rightarrow> agent_result" where
  "run_calls E [] st = (None, st)"
| "run_calls E (call # calls) st =
     (case run_call E call st of
        (None, st') \<Rightarrow> run_calls E calls st'
      | (Some e, st') \<Rightarrow> (Some e, st'))"

text \<open>The loop \<^verbatim>\<open>for iteration in range(max_iterations)\<close> with \<open>n\<close> iterations left.\<close>

fun run_loop :: "env \<Rightarrow> client \<Rightarrow> string list \<Rightarrow> nat \<Rightarrow> agent_state \<Rightarrow> agent_result" where
  "run_loop E cl schemas 0 st = (None, st)"
| "run_loop E cl schemas (Suc n) st =
     (let text = or_empty (message_content (cl schemas (messages st)));
          st1 = st\<lparr>round_trips := Suc (round_trips st)\<rparr>
      in case extract_functools E text of
           None \<Rightarrow> (None, st1\<lparr>agent_context := (agent_context st1)(''summary'' \<mapsto> JStr text), finished := True\<rparr>)
         | Some func_calls \<Rightarrow>
             (let st2 = st1\<lparr>messages := messages st1 @ [Turn ''assistant'' text]\<rparr> in
              case py_iter func_calls of
                Inl e \<Rightarrow> (Some e, st2)
              | Inr calls \<Rightarrow>
                  (case run_calls E calls st2 of
                     (None, st3) \<Rightarrow> run_loop E cl schemas n st3
                   | (Some e, st3) \<Rightarrow> (Some e, st3))))"

definition max_iterations :: nat where
  "max_iterations = 6"

definition initial_state :: "string \<Rightarrow> (string \<rightharpoonup> json) \<Rightarrow> world \<Rightarrow> agent_state" where
  "initial_state task ctx w =
     \<lparr>messages = [Turn ''user'' task], agent_context = ctx, state_world = w, round_trips = 0,
      finished = False\<rparr>"

text \<open>\<^verbatim>\<open>Agent(name, tools, client, model_id).run(task, context)\<close>; the value returned is the
  context of the final state.\<close>

definition run :: "env \<Rightarrow> client \<Rightarrow> string list \<Rightarrow> string \<Rightarrow> (string \<rightharpoonup> json) \<Rightarrow> world \<Rightarrow> agent_result" where
  "run E cl tools task ctx w =
     run_loop E cl (tool_schemas tools) max_iterations (initial_state task ctx w)"

section \<open>The agent of \<^verbatim>\<open>quiz_slm_working.py\<close>\<close>

definition tool_turn :: "env \<Rightarrow> tool_call \<Rightarrow> json \<Rightarrow> turn" where
  "tool_turn E tc result = ToolTurn (call_id tc) (function_name tc) (dumps E result)"

text \<open>\<^verbatim>\<open>TOOLS[function_name](**function_args)\<close> if the name is in \<^verbatim>\<open>TOOLS\<close>, the error
  descriptor otherwise.\<close>

definition call_tool :: "env \<Rightarrow> string \<Rightarrow> json \<Rightarrow> world \<Rightarrow> tool_result" where
  "call_tool E name args w =
     (case map_of (TOOLS E) name of
        Some f \<Rightarrow> f args w
      | None \<Rightarrow> (Inr (error_result (''Unknown tool: '' @ name)), w))"

text \<open>The body of \<^verbatim>\<open>for tool_call in tool_calls\<close>: no handler stands around the decoding of
  the arguments or the call of the tool.\<close>

definition run_tool_call :: "env \<Rightarrow> tool_call \<Rightarrow> agent_state \<Rightarrow> agent_result" where
  "run_tool_call E tc st =
     (case loads E (function_arguments tc) of
        None \<Rightarrow> (Some JSONDecodeError, st)
      | Some function_args \<Rightarrow>
          (case call_tool E (function_name tc) function_args (state_world st) of
             (Inl e, w) \<Rightarrow> (Some e, st\<lparr>state_world := w\<rparr>)
           | (Inr result, w) \<Rightarrow>
               (case update_context (JStr (function_name tc)) result (agent_context st) of
                  Inl e \<Rightarrow> (Some e, st\<lparr>state_world := w\<rparr>)
                | Inr ctx \<Rightarrow>
                    (None, st\<lparr>messages := messages st @ [tool_turn E tc result],
                                agent_context := ctx, state_world := w\<rparr>))))"

fun run_tool_calls :: "env \<Rightarrow> tool_call list \<Rightarrow> agent_state \<Rightarrow> agent_result" where
  "run_tool_calls E [] st = (None, st)"
| "run_tool_calls E (tc # tcs) st =
     (case run_tool_call E tc st of
        (None, st') \<Rightarrow> run_tool_calls E tcs st'
      | (Some e, st') \<Rightarrow> (Some e, st'))"

text \<open>\<^verbatim>\<open>not tool_calls\<close> holds of \<^verbatim>\<open>None\<close> and of the empty list.\<close>

definition populated :: "tool_call list option \<Rightarrow> tool_call list option" where
  "populated tcs = (case tcs of Some (tc # r) \<Rightarrow> Some (tc # r) | _ \<Rightarrow> None)"

fun run_loop_a :: "env \<Rightarrow> client \<Rightarrow> string list \<Rightarrow> nat \<Rightarrow> agent_state \<Rightarrow> agent_result" where
  "run_loop_a E cl schemas 0 st = (None, st)"
| "run_loop_a E cl schemas (Suc n) st =
     (let message = cl schemas (messages st);
          text = or_empty (message_content message);
          st1 = st\<lparr>round_trips := Suc (round_trips st)\<rparr>
      in case populated (message_tool_calls message) of
           None \<Rightarrow> (None, st1\<lparr>agent_context := (agent_context st1)(''summary'' \<mapsto> JStr text), finished := True\<rparr>)
         | Some tcs \<Rightarrow>
             (case run_tool_calls E tcs (st1\<lparr>messages := messages st1 @ [AssistantTurn message]\<rparr>) of
                (None, st3) \<Rightarrow> run_loop_a E cl schemas n st3
              | (Some e, st3) \<Rightarrow> (Some e, st3)))"

definition max_iterations_a :: nat where
  "max_iterations_a = 8"

definition run_a :: "env \<Rightarrow> client \<Rightarrow> string list \<Rightarrow> string \<Rightarrow> (string \<rightharpoonup> json) \<Rightarrow> world \<Rightarrow> agent_result" where
  "run_a E cl tools task ctx w =
     run_loop_a E cl (tool_schemas tools) max_iterations_a (initial_state task ctx w)"

section \<open>The coordinators\<close>

text \<open>
  \<^verbatim>\<open>QuizCoordinator.run\<close> runs the quiz master, shows the quiz, reads the answers the user
  types and runs the grader. The outcome says how far the run came; \<open>Graded\<close> holds the
  identifier and the responses that \<^verbatim>\<open>self.grader.run\<close> was called with and what it
  returned. The prints after the grader's return cannot raise and are left out.
\<close>

datatype coordinator_outcome =
    Producer_raised exn agent_state
  | Fallback_raised exn
  | Failed agent_state
  | Display_raised exn
  | Graded json "string list" agent_result

definition nl :: string where
  "nl = [CHR 0x0A]"

definition quiz_task :: "int \<Rightarrow> string \<Rightarrow> string" where
  "quiz_task num_questions source_text =
     ''Create a quiz with '' @ show_int num_questions @ '' questions from this text and save it.''
     @ nl @ nl @ ''TEXT: '' @ source_text @ nl @ nl
     @ ''Call create_quiz first, then save_quiz with the result.''"

definition grade_task :: "env \<Rightarrow> json \<Rightarrow> string list \<Rightarrow> string" where
  "grade_task E quiz_id responses =
     ''Grade quiz '' @ [CHR 0x22] @ py_str quiz_id @ [CHR 0x22] @ '' with responses ''
     @ dumps E (JArr (map JStr responses)) @ '' and create a report.'' @ nl @ nl
     @ ''Call grade_responses first, then create_report with the results.''"

text \<open>\<^verbatim>\<open>[a.strip().upper() for a in answers.split(",")]\<close> of the stripped input line.\<close>

definition parse_answers :: "string \<Rightarrow> string list" where
  "parse_answers line = map (\<lambda>a. upper (strip a)) (split_on CHR '','' (strip line))"

definition display_question :: "json \<Rightarrow> exn + unit" where
  "display_question q =
     and_then (py_item q ''id'') (\<lambda>i.
     and_then (py_item q ''question'') (\<lambda>t.
     and_then (py_item q ''options'') (\<lambda>options.
     and_then (py_iter options) (\<lambda>opts. Inr ()))))"

fun display_questions :: "json list \<Rightarrow> exn option" where
  "display_questions [] = None"
| "display_questions (q # qs) =
     (case display_question q of Inl e \<Rightarrow> Some e | Inr u \<Rightarrow> display_questions qs)"

text \<open>\<^verbatim>\<open>for q in context.get("quiz_data", {}).get("questions", [])\<close> with its prints.\<close>

definition display_quiz :: "(string \<rightharpoonup> json) \<Rightarrow> exn option" where
  "display_quiz ctx =
     (case and_then (py_get (case ctx ''quiz_data'' of Some d \<Rightarrow> d | None \<Rightarrow> JObj [])
                       ''questions'' (JArr [])) py_iter of
        Inl e \<Rightarrow> Some e
      | Inr qs \<Rightarrow> display_questions qs)"

text \<open>\<^verbatim>\<open>not context.get("quiz_id")\<close>.\<close>

definition missing :: "json option \<Rightarrow> bool" where
  "missing v = (case v of None \<Rightarrow> True | Some x \<Rightarrow> \<not> truthy x)"

definition quiz_master_tools :: "string list" where
  "quiz_master_tools = [''create_quiz'', ''save_quiz'']"

definition grader_tools :: "string list" where
  "grader_tools = [''load_quiz'', ''grade_responses'', ''create_report'']"

definition grader_context :: "json \<Rightarrow> string list \<Rightarrow> (string \<rightharpoonup> json)" where
  "grader_context quiz_id responses =
     [''quiz_id'' \<mapsto> quiz_id, ''responses'' \<mapsto> JArr (map JStr responses)]"

text \<open>\<^verbatim>\<open>QuizCoordinator.run\<close> of \<^verbatim>\<open>quiz_slm_fixed.py\<close>.\<close>

definition coordinator_run ::
  "env \<Rightarrow> client \<Rightarrow> string \<Rightarrow> int \<Rightarrow> string \<Rightarrow> world \<Rightarrow> coordinator_outcome" where
  "coordinator_run E cl source_text num_questions answers w =
     (case run E cl quiz_master_tools (quiz_task num_questions source_text) Map.empty w of
        (Some e, st) \<Rightarrow> Producer_raised e st
      | (None, st) \<Rightarrow>
          (case agent_context st ''quiz_id'' of
             None \<Rightarrow> Failed st
           | Some quiz_id \<Rightarrow>
               if \<not> truthy quiz_id then Failed st
               else
                 (case display_quiz (agent_context st) of
                    Some e \<Rightarrow> Display_raised e
                  | None \<Rightarrow>
                      (let responses = parse_answers answers
                       in Graded quiz_id responses
                            (run E cl grader_tools (grade_task E quiz_id responses)
                               (grader_context quiz_id responses) (state_world st))))))"

definition quiz_task_a :: "int \<Rightarrow> string \<Rightarrow> string" where
  "quiz_task_a num_questions source_text =
     ''You must create a quiz with '' @ show_int num_questions
     @ '' questions from the provided text, then save it.'' @ nl @ nl
     @ ''TEXT: '' @ source_text @ nl @ nl
     @ ''Steps:'' @ nl
     @ ''1. Call create_quiz with the source_text and num_questions='' @ show_int num_questions @ nl
     @ ''2. Call save_quiz with the quiz_data from step 1'' @ nl
     @ ''3. Confirm the quiz_id when done''"

definition grade_task_a :: "env \<Rightarrow> json \<Rightarrow> string list \<Rightarrow> string" where
  "grade_task_a E quiz_id responses =
     ''You must grade the quiz and create a report.'' @ nl @ nl
     @ ''Quiz ID: '' @ py_str quiz_id @ nl
     @ ''User responses: '' @ dumps E (JArr (map JStr responses)) @ nl @ nl
     @ ''Steps:'' @ nl
     @ ''1. Call grade_responses with quiz_id='' @ [CHR 0x22] @ py_str quiz_id @ [CHR 0x22]
     @ '' and responses='' @ dumps E (JArr (map JStr responses)) @ nl
     @ ''2. Call create_report with the quiz_id and grading_results from step 1'' @ nl
     @ ''3. Confirm completion''"

text \<open>Phases two and three, the same in both files up to the wording of the task.\<close>

definition take_and_grade ::
  "env \<Rightarrow> client \<Rightarrow> (string \<rightharpoonup> json) \<Rightarrow> json \<Rightarrow> string \<Rightarrow> world \<Rightarrow> coordinator_outcome" where
  "take_and_grade E cl ctx quiz_id answers w =
     (case display_quiz ctx of
        Some e \<Rightarrow> Display_raised e
      | None \<Rightarrow>
          (let responses = parse_answers answers
           in Graded quiz_id responses
                (run_a E cl grader_tools (grade_task_a E quiz_id responses)
                   (grader_context quiz_id responses) w)))"

text \<open>\<^verbatim>\<open>QuizCoordinator.run\<close> of \<^verbatim>\<open>quiz_slm_working.py\<close>: without an identifier from the quiz
  master it creates and saves the quiz itself, and gives up only if that fails too.\<close>

definition coordinator_run_a ::
  "env \<Rightarrow> client \<Rightarrow> string \<Rightarrow> int \<Rightarrow> string \<Rightarrow> world \<Rightarrow> coordinator_outcome" where
  "coordinator_run_a E cl source_text num_questions answers w =
     (case run_a E cl quiz_master_tools (quiz_task_a num_questions source_text) Map.empty w of
        (Some e, st) \<Rightarrow> Producer_raised e st
      | (None, st) \<Rightarrow>
          if missing (agent_context st ''quiz_id'') then
            (case create_quiz (JStr source_text) (JInt num_questions) of
               Inl e \<Rightarrow> Fallback_raised e
             | Inr quiz_result \<Rightarrow>
                 (case save_quiz E quiz_result (state_world st) of
                    (Inl e, w1) \<Rightarrow> Fallback_raised e
                  | (Inr save_result, w1) \<Rightarrow>
                      (case py_get save_result ''quiz_id'' JNull of
                         Inl e \<Rightarrow> Fallback_raised e
                       | Inr quiz_id \<Rightarrow>
                           (let ctx = (agent_context st)(''quiz_data'' \<mapsto> quiz_result,
                                                          ''quiz_id'' \<mapsto> quiz_id)
                            in if \<not> truthy quiz_id
                               then Failed (st\<lparr>agent_context := ctx, state_world := w1\<rparr>)
                               else take_and_grade E cl ctx quiz_id answers w1))))
          else
            (case agent_context st ''quiz_id'' of
               None \<Rightarrow> Failed st
             | Some quiz_id \<Rightarrow>
                 take_and_grade E cl (agent_context st) quiz_id answers (state_world st)))"

section \<open>The diagnostic scripts\<close>

text \<open>\<^verbatim>\<open>compare_modes.py\<close> and \<^verbatim>\<open>quick_test_toolcalling.py\<close> report by printing. A run is
  the exception that ended it, if one did, and the reports printed, in order.\<close>

datatype event =
    Response_structure "string option" "tool_call list option"
  | Mode_A_detected
  | Tool_call_info tool_call
  | Tool_result json
  | Final_answer "string option"
  | Mode_A_not_detected
  | Mode_B_detected
  | Parsed nat
  | Function_info json json
  | JSON_parse_error
  | Mode_B_not_detected
  | Mode_A_working
  | Success
  | Mode_A_not_working "string option"
  | Contains_functools
  | No_tool_calls

type_synonym report = "exn option \<times> event list"

definition get_weather :: "json \<Rightarrow> json \<Rightarrow> json" where
  "get_weather location unit =
     JObj [(''location'', location),
           (''temperature'', JInt (if unit = JStr ''celsius'' then 22 else 72)),
           (''unit'', unit),
           (''condition'', JStr ''Sunny'')]"

text \<open>\<^verbatim>\<open>TOOLS[name](**args)\<close> with \<^verbatim>\<open>TOOLS = {"get_weather": get_weather}\<close>.\<close>

definition call_weather_tool :: "json \<Rightarrow> json \<Rightarrow> exn + json" where
  "call_weather_tool name args =
     (case name of
        JArr xs \<Rightarrow> Inl (TypeError (''unhashable type: '' @ repr_str ''list''))
      | JObj kvs \<Rightarrow> Inl (TypeError (''unhashable type: '' @ repr_str ''dict''))
      | _ \<Rightarrow>
          if name = JStr ''get_weather'' then
            and_then (bind_kwargs ''get_weather''
                        [(''location'', None), (''unit'', Some (JStr ''celsius''))] args)
              (\<lambda>kw. Inr (get_weather (kw ''location'') (kw ''unit'')))
          else Inl KeyError)"

fun mode_b_calls :: "env \<Rightarrow> json list \<Rightarrow> event list \<Rightarrow> report" where
  "mode_b_calls E [] log = (None, log)"
| "mode_b_calls E (call # calls) log =
     (case py_get call ''name'' JNull of
        Inl e \<Rightarrow> (Some e, log)
      | Inr func_name \<Rightarrow>
          (case py_get call ''arguments'' (JObj []) of
             Inl e \<Rightarrow> (Some e, log)
           | Inr func_args \<Rightarrow>
               (case call_weather_tool func_name func_args of
                  Inl e \<Rightarrow> (Some e, log @ [Function_info func_name func_args])
                | Inr result \<Rightarrow>
                    mode_b_calls E calls
                      (log @ [Function_info func_name func_args, Tool_result result]))))"

text \<open>\<^verbatim>\<open>test_mode_b_from_response\<close>: \<^verbatim>\<open>re.search\<close> raises on \<^verbatim>\<open>None\<close>; the handler around the
  decoding and the calls takes \<^verbatim>\<open>JSONDecodeError\<close> only.\<close>

definition test_mode_b_from_response :: "env \<Rightarrow> string option \<Rightarrow> report" where
  "test_mode_b_from_response E content =
     (case content of
        None \<Rightarrow>
          (Some (TypeError (''expected string or bytes-like object, got '' @ repr_str ''NoneType'')), [])
      | Some text \<Rightarrow>
          (case re_search lazy_group text of
             None \<Rightarrow> (None, [Mode_B_not_detected])
           | Some g \<Rightarrow>
               (case loads E (''['' @ g @ '']'') of
                  None \<Rightarrow> (None, [Mode_B_detected, JSON_parse_error])
                | Some tool_calls \<Rightarrow>
                    (case py_len tool_calls of
                       Inl e \<Rightarrow> (Some e, [Mode_B_detected])
                     | Inr n \<Rightarrow>
                         (case py_iter tool_calls of
                            Inl e \<Rightarrow> (Some e, [Mode_B_detected, Parsed n])
                          | Inr calls \<Rightarrow> mode_b_calls E calls [Mode_B_detected, Parsed n])))))"







section \<open>What grading computes\<close>




section \<open>The parameters of the tools\<close>

text \<open>The parameters of each tool function, from its \<^verbatim>\<open>def\<close> line; none has a default.\<close>

definition parameters :: "string \<Rightarrow> string list" where
  "parameters n =
     (if n = ''create_quiz'' then [''source_text'', ''num_questions'']
      else if n = ''save_quiz'' then [''quiz_data'']
      else if n = ''load_quiz'' then [''quiz_id'']
      else if n = ''grade_responses'' then [''quiz_id'', ''responses'']
      else if n = ''create_report'' then [''quiz_id'', ''grading_results'']
      else [])"

section \<open>Kinds of report\<close>



section \<open>A batch of calls, one after the other\<close>

text \<open>The tool name that a call of the embedded-text encoding gives.\<close>

definition name_of :: "json \<Rightarrow> json" where
  "name_of call = (case py_get call ''name'' JNull of Inr n \<Rightarrow> n | Inl e \<Rightarrow> JNull)"

definition arguments_of :: "json \<Rightarrow> json" where
  "arguments_of call = (case py_get call ''arguments'' (JObj []) of Inr a \<Rightarrow> a | Inl e \<Rightarrow> JNull)"

text \<open>The results of the calls of a batch when they are executed in the order listed, each
  in the world that the one before it left, up to the first call that raises.\<close>

fun results_in_order :: "env \<Rightarrow> json list \<Rightarrow> world \<Rightarrow> json list" where
  "results_in_order E [] w = []"
| "results_in_order E (call # calls) w =
     (case execute_tool E (name_of call) (arguments_of call) w of
        (Inr result, w') \<Rightarrow> result # results_in_order E calls w'
      | (Inl e, w') \<Rightarrow> [])"

text \<open>The same for the structured calls of \<^verbatim>\<open>quiz_slm_working.py\<close>.\<close>

fun results_in_order_a :: "env \<Rightarrow> tool_call list \<Rightarrow> world \<Rightarrow> json list" where
  "results_in_order_a E [] w = []"
| "results_in_order_a E (tc # tcs) w =
     (case loads E (function_arguments tc) of
        None \<Rightarrow> []
      | Some args \<Rightarrow>
          (case call_tool E (function_name tc) args w of
             (Inr result, w') \<Rightarrow> result # results_in_order_a E tcs w'
           | (Inl e, w') \<Rightarrow> []))"

section \<open>What the grader was called with\<close>

text \<open>The identifier and the responses that \<^verbatim>\<open>self.grader.run\<close> was called with, if the run
  of the coordinator came to call it.\<close>

definition grader_called_with :: "coordinator_outcome \<Rightarrow> (json \<times> string list) option" where
  "grader_called_with outcome =
     (case outcome of Graded quiz_id responses r \<Rightarrow> Some (quiz_id, responses) | _ \<Rightarrow> None)"

section \<open>Worked examples\<close>

text \<open>A clock that stands at one second, and an empty file system.\<close>

definition one_second :: "nat \<Rightarrow> string" where
  "one_second k = ''20250101_120000''"

definition empty_world :: world where
  "empty_world = \<lparr>files = Map.empty, clock_reads = 0\<rparr>"

definition two_questions :: json where
  "two_questions =
     JObj [(''questions'',
            JArr [JObj [(''id'', JInt 1), (''correct_answer'', JStr ''A'')],
                  JObj [(''id'', JInt 2), (''correct_answer'', JStr ''B'')]])]"

definition one_question :: json where
  "one_question =
     JObj [(''questions'', JArr [JObj [(''id'', JInt 1), (''correct_answer'', JStr ''C'')]])]"

text \<open>The world after \<open>two_questions\<close> has been saved.\<close>

definition saved_world :: world where
  "saved_world = snd (save_quiz (python one_second) two_questions empty_world)"

text \<open>A clock whose first reading falls in one second and every later one in the next.\<close>

definition ticking :: "nat \<Rightarrow> string" where
  "ticking k = (if k = 0 then ''20250101_120000'' else ''20250101_120001'')"

text \<open>An endpoint that answers every request with the same text and no structured call,
  and one that answers with the same structured calls and no text.\<close>

definition says :: "string \<Rightarrow> client" where
  "says text schemas msgs = \<lparr>message_content = Some text, message_tool_calls = None\<rparr>"

definition asks :: "tool_call list \<Rightarrow> client" where
  "asks tcs schemas msgs = \<lparr>message_content = None, message_tool_calls = Some tcs\<rparr>"



text \<open>Texts and structured calls that request a tool: one that \<^verbatim>\<open>create_quiz\<close> cannot
  serve since the source text is a number, one for a tool that does not exist, and a
  structured call whose arguments are not JSON.\<close>

definition bad_request :: string where
  \<open>bad_request =
     ''functools[{"name": "create_quiz", "arguments": {"source_text": 5, "num_questions": 1}}]''\<close>

definition unknown_request :: string where
  \<open>unknown_request = ''functools[{"name": "nope"}]''\<close>

definition two_requests :: string where
  \<open>two_requests = ''functools[{"name": "nope"}, {"name": "load_quiz", "arguments": {"quiz_id": "q"}}]''\<close>

definition bad_then_good :: string where
  \<open>bad_then_good =
     ''functools[{"name": "create_quiz", "arguments": {"source_text": 5, "num_questions": 1}}, {"name": "nope"}]''\<close>

definition broken_call :: tool_call where
  \<open>broken_call =
     \<lparr>call_id = ''call_1'', function_name = ''create_quiz'', function_arguments = ''{oops''\<rparr>\<close>

definition unknown_call :: tool_call where
  \<open>unknown_call = \<lparr>call_id = ''call_1'', function_name = ''nope'', function_arguments = ''{}''\<rparr>\<close>

definition load_call :: tool_call where
  \<open>load_call =
     \<lparr>call_id = ''call_2'', function_name = ''load_quiz'', function_arguments = ''{"quiz_id": "q"}''\<rparr>\<close>

text \<open>The state in which a run on the empty world starts, and the two calls that
  \<open>two_requests\<close> holds.\<close>

definition start :: agent_state where
  "start = initial_state ''task'' Map.empty empty_world"

definition two_calls :: "json list" where
  "two_calls =
     [JObj [(''name'', JStr ''nope'')],
      JObj [(''name'', JStr ''load_quiz''), (''arguments'', JObj [(''quiz_id'', JStr ''q'')])]]"

text \<open>An endpoint that asks for one \<^verbatim>\<open>save_quiz\<close> call as long as the conversation is the
  task alone and says that it is done afterwards; and a source text.\<close>

definition save_request :: string where
  \<open>save_request = ''functools[{"name": "save_quiz", "arguments": {"quiz_data": {"questions": []}}}]''\<close>

definition saves_once :: client where
  "saves_once schemas msgs =
     (if length msgs = 1 then \<lparr>message_content = Some save_request, message_tool_calls = None\<rparr>
      else \<lparr>message_content = Some ''done'', message_tool_calls = None\<rparr>)"

definition water :: string where
  "water = ''Water boils at one hundred degrees.''"

section \<open>The quiz store\<close>

lemma load_quiz_world: "snd (load_quiz E quiz_id w) = w"
  by (simp add: load_quiz_def split: option.splits sum.splits)

lemma grade_responses_world: "snd (grade_responses E quiz_id responses w) = w"
proof -
  obtain r w' where l: "load_quiz E quiz_id w = (r, w')" by (cases "load_quiz E quiz_id w")
  with load_quiz_world [of E quiz_id w] have "w' = w" by simp
  with l show ?thesis
    by (simp add: grade_responses_def split: sum.splits bool.splits)
qed

lemma output_path_last: "name \<noteq> [] \<Longrightarrow> last (output_path name) = last name"
  by (simp add: output_path_def)

lemma quiz_path_ne_report_path:
  "output_path (a @ ''.json'') \<noteq> output_path (b @ ''_report.md'')"
proof
  assume "output_path (a @ ''.json'') = output_path (b @ ''_report.md'')"
  then have "last (output_path (a @ ''.json'')) = last (output_path (b @ ''_report.md''))" by simp
  then show False by (simp add: output_path_last)
qed

lemma quiz_path_inj:
  "output_path (''quiz_'' @ s @ ''.json'') = output_path (''quiz_'' @ t @ ''.json'') \<Longrightarrow> s = t"
  by (simp add: output_path_def)

lemma create_report_files:
  "files (snd (create_report quiz_id g w)) (output_path (a @ ''.json'')) = files w (output_path (a @ ''.json''))"
  using quiz_path_ne_report_path [of a "py_str quiz_id"]
  by (simp add: create_report_def Let_def split: sum.splits bool.splits)

lemma save_quiz_files:
  "now_stamp E (clock_reads w) \<noteq> s \<Longrightarrow>
   files (snd (save_quiz E q w)) (output_path (''quiz_'' @ s @ ''.json'')) = files w (output_path (''quiz_'' @ s @ ''.json''))"
  using quiz_path_inj [of s "now_stamp E (clock_reads w)"]
  by (auto simp add: save_quiz_def Let_def split: sum.splits bool.splits)

lemma save_quiz_id:
  "save_quiz E q w = (Inr r, w') \<Longrightarrow> py_item r ''quiz_id'' = Inr i \<Longrightarrow> i = JStr (''quiz_'' @ now_stamp E (clock_reads w))"
  by (auto simp add: save_quiz_def Let_def py_item_def error_result_def split: sum.splits bool.splits if_splits)

lemma execute_tool_world:
  "snd (execute_tool E name args w) =
     (case registry_lookup (TOOLS E) name of Inr (Some f) \<Rightarrow> snd (f args w) | _ \<Rightarrow> w)"
  by (auto simp add: execute_tool_def split: sum.splits option.splits prod.splits exn.splits)


lemma call_files:
  assumes "map_of (TOOLS E) n = Some f"
      and "n \<noteq> ''save_quiz'' \<or> now_stamp E (clock_reads w) \<noteq> s"
  shows "files (snd (f args w)) (output_path (''quiz_'' @ s @ ''.json'')) = files w (output_path (''quiz_'' @ s @ ''.json''))"
proof -
  let ?p = "output_path (''quiz_'' @ s @ ''.json'')"
  have c: "files (snd (call_create_quiz args w)) ?p = files w ?p"
    by (simp add: call_create_quiz_def)
  have l: "files (snd (call_load_quiz E args w)) ?p = files w ?p"
    by (simp add: call_load_quiz_def load_quiz_world split: sum.splits)
  have g: "files (snd (call_grade_responses E args w)) ?p = files w ?p"
    by (simp add: call_grade_responses_def grade_responses_world split: sum.splits)
  have r: "files (snd (call_create_report args w)) ?p = files w ?p"
    using create_report_files [of _ _ w "''quiz_'' @ s"]
    by (simp add: call_create_report_def split: sum.splits)
  have sv: "now_stamp E (clock_reads w) \<noteq> s \<Longrightarrow> files (snd (call_save_quiz E args w)) ?p = files w ?p"
    using save_quiz_files [of E w s] by (simp add: call_save_quiz_def split: sum.splits)
  from assms show ?thesis
    using c l g r sv by (auto simp add: TOOLS_def split: if_splits)
qed


lemma load_quiz_result:
  "files w2 (output_path (py_str quiz_id @ ''.json'')) = files w (output_path (py_str quiz_id @ ''.json''))
   \<Longrightarrow> fst (load_quiz E quiz_id w2) = fst (load_quiz E quiz_id w)"
  by (simp add: load_quiz_def split: option.splits sum.splits)

lemma grade_responses_result:
  assumes "files w2 (output_path (py_str quiz_id @ ''.json'')) = files w (output_path (py_str quiz_id @ ''.json''))"
  shows "fst (grade_responses E quiz_id responses w2) = fst (grade_responses E quiz_id responses w)"
proof -
  obtain r where a: "load_quiz E quiz_id w = (r, w)"
    using load_quiz_world [of E quiz_id w] by (cases "load_quiz E quiz_id w") simp
  obtain r2 where b: "load_quiz E quiz_id w2 = (r2, w2)"
    using load_quiz_world [of E quiz_id w2] by (cases "load_quiz E quiz_id w2") simp
  from load_quiz_result [OF assms, of E] a b have "r2 = r" by simp
  with a b show ?thesis
    by (cases r; cases "py_contains ''error'' (projr r)")
       (simp_all add: grade_responses_def split: bool.splits)
qed


text \<open>
  Claim C7, as amended. Two successful \<^verbatim>\<open>save_quiz\<close> calls whose clock readings, formatted
  to the second, differ return distinct identifiers. No tool run through
  \<^verbatim>\<open>execute_tool\<close> changes the file of the identifier \<open>quiz_s\<close>, unless it is a \<^verbatim>\<open>save_quiz\<close>
  whose clock reading is \<open>s\<close>.
\<close>

theorem quiz_id_unique_per_second:
  "(fst (save_quiz E qa wa) = Inr ra \<and> fst (save_quiz E qb wb) = Inr rb
      \<and> py_item ra ''quiz_id'' = Inr ia \<and> py_item rb ''quiz_id'' = Inr ib
      \<and> now_stamp E (clock_reads wa) \<noteq> now_stamp E (clock_reads wb) \<longrightarrow> ia \<noteq> ib)
   \<and> (name \<noteq> JStr ''save_quiz'' \<or> now_stamp E (clock_reads w) \<noteq> s \<longrightarrow>
        files (snd (execute_tool E name args w)) (output_path (''quiz_'' @ s @ ''.json''))
          = files w (output_path (''quiz_'' @ s @ ''.json'')))"
proof (intro conjI impI)
  assume a: "fst (save_quiz E qa wa) = Inr ra \<and> fst (save_quiz E qb wb) = Inr rb
      \<and> py_item ra ''quiz_id'' = Inr ia \<and> py_item rb ''quiz_id'' = Inr ib
      \<and> now_stamp E (clock_reads wa) \<noteq> now_stamp E (clock_reads wb)"
  then have "save_quiz E qa wa = (Inr ra, snd (save_quiz E qa wa))"
        and "save_quiz E qb wb = (Inr rb, snd (save_quiz E qb wb))"
    by (simp_all add: prod_eq_iff)
  with a have "ia = JStr (''quiz_'' @ now_stamp E (clock_reads wa))"
        and "ib = JStr (''quiz_'' @ now_stamp E (clock_reads wb))"
    using save_quiz_id by blast+
  with a show "ia \<noteq> ib" by simp
next
  assume b: "name \<noteq> JStr ''save_quiz'' \<or> now_stamp E (clock_reads w) \<noteq> s"
  let ?p = "output_path (''quiz_'' @ s @ ''.json'')"
  show "files (snd (execute_tool E name args w)) ?p = files w ?p"
  proof (cases "registry_lookup (TOOLS E) name")
    case (Inl e)
    then show ?thesis by (simp add: execute_tool_world)
  next
    case (Inr fo)
    show ?thesis
    proof (cases fo)
      case None
      with Inr show ?thesis by (simp add: execute_tool_world)
    next
      case (Some f)
      with Inr obtain n where n: "name = JStr n" "map_of (TOOLS E) n = Some f"
        by (auto simp add: registry_lookup_def split: json.splits)
      with b have "n \<noteq> ''save_quiz'' \<or> now_stamp E (clock_reads w) \<noteq> s" by simp
      from call_files [OF n(2) this] Inr Some show ?thesis
        by (simp add: execute_tool_world)
    qed
  qed
qed

theorem quiz_id_unique_per_second_witness:
  "fst (save_quiz (python ticking) two_questions empty_world)
     = Inr (JObj [(''quiz_id'', JStr ''quiz_20250101_120000''),
                  (''path'', JStr ''quiz_data/quiz_20250101_120000.json'')])
   \<and> fst (save_quiz (python ticking) one_question
            (snd (save_quiz (python ticking) two_questions empty_world)))
     = Inr (JObj [(''quiz_id'', JStr ''quiz_20250101_120001''),
                  (''path'', JStr ''quiz_data/quiz_20250101_120001.json'')])
   \<and> JStr ''quiz_20250101_120000'' \<noteq> JStr ''quiz_20250101_120001''
   \<and> files (snd (execute_tool (python ticking) (JStr ''save_quiz'')
                    (JObj [(''quiz_data'', one_question)])
                    (snd (save_quiz (python ticking) two_questions empty_world))))
        (output_path (''quiz_'' @ ''20250101_120000'' @ ''.json''))
      = files (snd (save_quiz (python ticking) two_questions empty_world))
          (output_path (''quiz_'' @ ''20250101_120000'' @ ''.json''))"
proof -
  let ?E = "python ticking"
  let ?w1 = "snd (save_quiz ?E two_questions empty_world)"
  let ?r1 = "JObj [(''quiz_id'', JStr ''quiz_20250101_120000''),
                   (''path'', JStr ''quiz_data/quiz_20250101_120000.json'')]"
  let ?r2 = "JObj [(''quiz_id'', JStr ''quiz_20250101_120001''),
                   (''path'', JStr ''quiz_data/quiz_20250101_120001.json'')]"
  have s1: "fst (save_quiz ?E two_questions empty_world) = Inr ?r1" by code_simp
  have s2: "fst (save_quiz ?E one_question ?w1) = Inr ?r2" by code_simp
  have i1: "py_item ?r1 ''quiz_id'' = Inr (JStr ''quiz_20250101_120000'')" by code_simp
  have i2: "py_item ?r2 ''quiz_id'' = Inr (JStr ''quiz_20250101_120001'')" by code_simp
  have t: "now_stamp ?E (clock_reads empty_world) \<noteq> now_stamp ?E (clock_reads ?w1)" by code_simp
  have u: "now_stamp ?E (clock_reads ?w1) \<noteq> ''20250101_120000''" by code_simp
  note inst = quiz_id_unique_per_second [where E = "?E" and qa = two_questions and wa = empty_world
      and ra = "?r1" and qb = one_question and wb = "?w1" and rb = "?r2"
      and ia = "JStr ''quiz_20250101_120000''" and ib = "JStr ''quiz_20250101_120001''"
      and name = "JStr ''save_quiz''" and w = "?w1" and s = "''20250101_120000''"
      and args = "JObj [(''quiz_data'', one_question)]"]
  from inst s1 s2 i1 i2 t u show ?thesis by blast
qed

text \<open>
  Claim C7 as stated fails: two saves within one second get the same identifier, and the
  second replaces the question list stored under it.
\<close>

theorem quiz_id_same_second_counterexample:
  "fst (save_quiz (python one_second) two_questions empty_world)
     = Inr (JObj [(''quiz_id'', JStr ''quiz_20250101_120000''),
                  (''path'', JStr ''quiz_data/quiz_20250101_120000.json'')])
   \<and> fst (save_quiz (python one_second) one_question saved_world)
     = Inr (JObj [(''quiz_id'', JStr ''quiz_20250101_120000''),
                  (''path'', JStr ''quiz_data/quiz_20250101_120000.json'')])
   \<and> fst (load_quiz (python one_second) (JStr ''quiz_20250101_120000'') saved_world)
     = Inr (JObj [(''quiz_id'', JStr ''quiz_20250101_120000''),
                  (''questions'', JArr [JObj [(''id'', JInt 1), (''correct_answer'', JStr ''A'')],
                                        JObj [(''id'', JInt 2), (''correct_answer'', JStr ''B'')]])])
   \<and> fst (load_quiz (python one_second) (JStr ''quiz_20250101_120000'')
            (snd (save_quiz (python one_second) one_question saved_world)))
     = Inr (JObj [(''quiz_id'', JStr ''quiz_20250101_120000''),
                  (''questions'', JArr [JObj [(''id'', JInt 1), (''correct_answer'', JStr ''C'')]])])"
  by code_simp

text \<open>
  Claim C8. Saving a quiz record whose \<^verbatim>\<open>questions\<close> is a list and loading it under the
  identifier returned gives back the same question list, where the JSON library reads
  back the document it wrote.
\<close>

theorem save_then_load_round_trip:
  assumes "map_of quiz_data ''questions'' = Some (JArr questions)"
      and "loads E (dump_indent E (JObj [(''quiz_id'', JStr (''quiz_'' @ now_stamp E (clock_reads w))),
                                          (''questions'', JArr questions)]))
             = Some (JObj [(''quiz_id'', JStr (''quiz_'' @ now_stamp E (clock_reads w))),
                           (''questions'', JArr questions)])"
  shows "\<exists>quiz_id path quiz.
           fst (save_quiz E (JObj quiz_data) w) = Inr (JObj [(''quiz_id'', JStr quiz_id), (''path'', JStr path)])
         \<and> fst (load_quiz E (JStr quiz_id) (snd (save_quiz E (JObj quiz_data) w))) = Inr quiz
         \<and> py_item quiz ''questions'' = Inr (JArr questions)"
proof -
  from assms(1) have k: "''questions'' \<in> fst ` set quiz_data"
    by (metis map_of_eq_None_iff option.distinct(1))
  then have ne: "quiz_data \<noteq> []" by auto
  let ?id = "''quiz_'' @ now_stamp E (clock_reads w)"
  let ?doc = "JObj [(''quiz_id'', JStr ?id), (''questions'', JArr questions)]"
  have sv: "fst (save_quiz E (JObj quiz_data) w)
              = Inr (JObj [(''quiz_id'', JStr ?id), (''path'', JStr (output_path (?id @ ''.json'')))])"
    using k ne assms(1) by (simp add: save_quiz_def truthy_def py_contains_def py_item_def Let_def)
  have fl: "files (snd (save_quiz E (JObj quiz_data) w)) (output_path (?id @ ''.json''))
              = Some (dump_indent E ?doc)"
    using k ne assms(1) by (simp add: save_quiz_def truthy_def py_contains_def py_item_def Let_def)
  have ld: "fst (load_quiz E (JStr ?id) (snd (save_quiz E (JObj quiz_data) w))) = Inr ?doc"
    using fl assms(2)
    by (simp add: load_quiz_def py_str_def py_get_def py_len_def and_then_def)
  have "py_item ?doc ''questions'' = Inr (JArr questions)"
    by (simp add: py_item_def)
  with sv ld show ?thesis by blast
qed

theorem save_then_load_round_trip_witness:
  "\<exists>quiz_id path quiz.
       fst (save_quiz (python one_second)
              (JObj [(''questions'',
                      JArr [JObj [(''id'', JInt 1), (''correct_answer'', JStr ''A'')],
                            JObj [(''id'', JInt 2), (''correct_answer'', JStr ''B'')]])])
              empty_world)
         = Inr (JObj [(''quiz_id'', JStr quiz_id), (''path'', JStr path)])
     \<and> fst (load_quiz (python one_second) (JStr quiz_id)
              (snd (save_quiz (python one_second)
                      (JObj [(''questions'',
                              JArr [JObj [(''id'', JInt 1), (''correct_answer'', JStr ''A'')],
                                    JObj [(''id'', JInt 2), (''correct_answer'', JStr ''B'')]])])
                      empty_world)))
         = Inr quiz
     \<and> py_item quiz ''questions''
         = Inr (JArr [JObj [(''id'', JInt 1), (''correct_answer'', JStr ''A'')],
                      JObj [(''id'', JInt 2), (''correct_answer'', JStr ''B'')]])"
proof -
  let ?E = "python one_second"
  let ?qs = "[JObj [(''id'', JInt 1), (''correct_answer'', JStr ''A'')],
              JObj [(''id'', JInt 2), (''correct_answer'', JStr ''B'')]]"
  have h1: "map_of [(''questions'', JArr ?qs)] ''questions'' = Some (JArr ?qs)"
    by simp
  have h2: "loads ?E (dump_indent ?E
               (JObj [(''quiz_id'', JStr (''quiz_'' @ now_stamp ?E (clock_reads empty_world))),
                      (''questions'', JArr ?qs)]))
            = Some (JObj [(''quiz_id'', JStr (''quiz_'' @ now_stamp ?E (clock_reads empty_world))),
                          (''questions'', JArr ?qs)])"
    by code_simp
  from save_then_load_round_trip [OF h1 h2] show ?thesis .
qed

text \<open>
  Claim C9. \<^verbatim>\<open>grade_responses\<close> leaves the world as it found it, so a second call with the
  same identifier and responses returns what the first returned; and its result is the
  same in any two worlds that hold the same file for the identifier.
\<close>

theorem grade_responses_idempotent:
  "grade_responses E quiz_id responses (snd (grade_responses E quiz_id responses w))
     = grade_responses E quiz_id responses w
   \<and> (files w2 (output_path (py_str quiz_id @ ''.json''))
         = files w (output_path (py_str quiz_id @ ''.json''))
       \<longrightarrow> fst (grade_responses E quiz_id responses w2) = fst (grade_responses E quiz_id responses w))"
  using grade_responses_result [of w2 quiz_id w E responses]
  by (simp add: grade_responses_world)

theorem grade_responses_idempotent_witness:
  "files (saved_world\<lparr>clock_reads := 7\<rparr>) (output_path (py_str (JStr ''quiz_20250101_120000'') @ ''.json''))
     = files saved_world (output_path (py_str (JStr ''quiz_20250101_120000'') @ ''.json''))
   \<and> fst (grade_responses (python one_second) (JStr ''quiz_20250101_120000'') (JArr [JStr ''a''])
            (saved_world\<lparr>clock_reads := 7\<rparr>))
     = fst (grade_responses (python one_second) (JStr ''quiz_20250101_120000'') (JArr [JStr ''a''])
            saved_world)
   \<and> grade_responses (python one_second) (JStr ''quiz_20250101_120000'') (JArr [JStr ''a''])
        (snd (grade_responses (python one_second) (JStr ''quiz_20250101_120000'') (JArr [JStr ''a''])
               saved_world))
     = grade_responses (python one_second) (JStr ''quiz_20250101_120000'') (JArr [JStr ''a''])
         saved_world"
  using grade_responses_idempotent [of "python one_second" "JStr ''quiz_20250101_120000''"
      "JArr [JStr ''a'']" saved_world "saved_world\<lparr>clock_reads := 7\<rparr>"]
  by simp

section \<open>Grading a short response list\<close>










section \<open>The tool executor\<close>

lemma contains_append: "contains sub (pre @ sub)"
proof (induction pre)
  case Nil
  show ?case by (cases sub) simp_all
next
  case (Cons c pre)
  then show ?case by simp
qed

lemma bind_kwargs_not_mapping:
  "\<forall>kvs. arguments \<noteq> JObj kvs \<Longrightarrow> \<exists>m. bind_kwargs fname params arguments = Inl (TypeError m)"
  by (cases arguments) (simp_all add: bind_kwargs_def)

lemma bind_kwargs_missing:
  assumes "(p, None) \<in> set params" and "map_of kvs p = None"
  shows "\<exists>m. bind_kwargs fname params (JObj kvs) = Inl (TypeError m)"
proof (cases "filter (\<lambda>k. k \<notin> set (map fst params)) (map fst kvs)")
  case (Cons k ks)
  then show ?thesis by (simp add: bind_kwargs_def)
next
  case Nil
  from assms have "(p, None) \<in> set (filter (\<lambda>p. snd p = None \<and> map_of kvs (fst p) = None) params)"
    by simp
  then obtain m ms where "filter (\<lambda>p. snd p = None \<and> map_of kvs (fst p) = None) params = m # ms"
    by (cases "filter (\<lambda>p. snd p = None \<and> map_of kvs (fst p) = None) params") auto
  with Nil show ?thesis by (simp add: bind_kwargs_def)
qed

lemma execute_tool_type_error:
  assumes "map_of (TOOLS E) name = Some f" and "fst (f arguments w) = Inl (TypeError msg)"
  shows "execute_tool E (JStr name) arguments w
           = (Inr (error_result (''Invalid arguments for '' @ name @ '': '' @ msg)), snd (f arguments w))"
proof -
  obtain r w' where fw: "f arguments w = (r, w')" by (cases "f arguments w")
  with assms(2) have "r = Inl (TypeError msg)" by simp
  with assms(1) fw show ?thesis
    by (simp add: execute_tool_def registry_lookup_def py_str_def)
qed

lemma call_binding_fails:
  assumes "map_of (TOOLS E) name = Some f"
      and "(\<forall>kvs. arguments \<noteq> JObj kvs)
           \<or> (\<exists>kvs p. arguments = JObj kvs \<and> p \<in> set (parameters name) \<and> map_of kvs p = None)"
  shows "\<exists>m. f arguments w = (Inl (TypeError m), w)"
proof -
  have b: "\<exists>m. bind_kwargs name (map (\<lambda>p. (p, None)) (parameters name)) arguments = Inl (TypeError m)"
    using assms(2)
  proof
    assume "\<forall>kvs. arguments \<noteq> JObj kvs"
    then show ?thesis by (rule bind_kwargs_not_mapping)
  next
    assume "\<exists>kvs p. arguments = JObj kvs \<and> p \<in> set (parameters name) \<and> map_of kvs p = None"
    then obtain kvs p where "arguments = JObj kvs" "p \<in> set (parameters name)" "map_of kvs p = None"
      by blast
    then show ?thesis
      using bind_kwargs_missing [of p "map (\<lambda>p. (p, None)) (parameters name)" kvs name] by auto
  qed
  from assms(1) have "name \<in> set (map fst (TOOLS E))" by (metis map_of_eq_None_iff not_None_eq set_map)
  then have "name = ''create_quiz'' \<or> name = ''save_quiz'' \<or> name = ''load_quiz''
      \<or> name = ''grade_responses'' \<or> name = ''create_report''"
    by (simp add: TOOLS_def)
  then show ?thesis
    using assms(1) b
    by (elim disjE)
       (auto simp add: TOOLS_def parameters_def call_create_quiz_def call_save_quiz_def
          call_load_quiz_def call_grade_responses_def call_create_report_def and_then_def)
qed


text \<open>
  Claim C2, as amended. For a tool name that is a string, \<^verbatim>\<open>execute_tool\<close> returns an error
  descriptor that contains the name when the registry does not know it. For a known tool
  it returns an error descriptor, and does not raise, when the arguments are not a
  mapping, when a parameter of the tool is missing from them, and whenever the call
  raises a \<^verbatim>\<open>TypeError\<close>.
\<close>

theorem execute_tool_converts_type_errors:
  "(map_of (TOOLS E) name = None \<longrightarrow>
      execute_tool E (JStr name) arguments w = (Inr (error_result (''Unknown tool: '' @ name)), w)
      \<and> contains name (''Unknown tool: '' @ name))
   \<and> (map_of (TOOLS E) name = Some f \<and> (\<forall>kvs. arguments \<noteq> JObj kvs) \<longrightarrow>
        (\<exists>msg. execute_tool E (JStr name) arguments w = (Inr (error_result msg), w)))
   \<and> (map_of (TOOLS E) name = Some f \<and> arguments = JObj kvs \<and> p \<in> set (parameters name)
        \<and> map_of kvs p = None \<longrightarrow>
        (\<exists>msg. execute_tool E (JStr name) arguments w = (Inr (error_result msg), w)))
   \<and> (map_of (TOOLS E) name = Some f \<and> fst (f arguments w) = Inl (TypeError m) \<longrightarrow>
        execute_tool E (JStr name) arguments w
          = (Inr (error_result (''Invalid arguments for '' @ name @ '': '' @ m)), snd (f arguments w)))"
proof (intro conjI impI)
  assume "map_of (TOOLS E) name = None"
  then show "execute_tool E (JStr name) arguments w = (Inr (error_result (''Unknown tool: '' @ name)), w)"
    by (simp add: execute_tool_def registry_lookup_def py_str_def)
next
  show "contains name (''Unknown tool: '' @ name)" by (rule contains_append)
next
  assume a: "map_of (TOOLS E) name = Some f \<and> (\<forall>kvs. arguments \<noteq> JObj kvs)"
  then obtain m' where "f arguments w = (Inl (TypeError m'), w)"
    using call_binding_fails [of E name f arguments w] by blast
  with a show "\<exists>msg. execute_tool E (JStr name) arguments w = (Inr (error_result msg), w)"
    using execute_tool_type_error [of E name f arguments w m'] by auto
next
  assume a: "map_of (TOOLS E) name = Some f \<and> arguments = JObj kvs \<and> p \<in> set (parameters name)
        \<and> map_of kvs p = None"
  then obtain m' where "f arguments w = (Inl (TypeError m'), w)"
    using call_binding_fails [of E name f arguments w] by blast
  with a show "\<exists>msg. execute_tool E (JStr name) arguments w = (Inr (error_result msg), w)"
    using execute_tool_type_error [of E name f arguments w m'] by auto
next
  assume "map_of (TOOLS E) name = Some f \<and> fst (f arguments w) = Inl (TypeError m)"
  then show "execute_tool E (JStr name) arguments w
          = (Inr (error_result (''Invalid arguments for '' @ name @ '': '' @ m)), snd (f arguments w))"
    by (simp add: execute_tool_type_error)
qed

theorem execute_tool_converts_type_errors_witness:
  "execute_tool (python one_second) (JStr ''nope'') (JObj []) empty_world
     = (Inr (error_result (''Unknown tool: '' @ ''nope'')), empty_world)
   \<and> contains ''nope'' (''Unknown tool: '' @ ''nope'')
   \<and> (\<exists>msg. execute_tool (python one_second) (JStr ''save_quiz'') (JArr []) empty_world
               = (Inr (error_result msg), empty_world))
   \<and> (\<exists>msg. execute_tool (python one_second) (JStr ''grade_responses'')
                 (JObj [(''quiz_id'', JStr ''q'')]) empty_world
               = (Inr (error_result msg), empty_world))
   \<and> fst (execute_tool (python one_second) (JStr ''save_quiz'')
            (JObj [(''quiz_data'', JInt 5)]) empty_world)
     = Inr (error_result (''Invalid arguments for '' @ ''save_quiz'' @ '': ''
                          @ ''argument of type '' @ repr_str ''int'' @ '' is not iterable''))"
proof -
  let ?E = "python one_second"
  let ?m = "''argument of type '' @ repr_str ''int'' @ '' is not iterable''"
  have n: "map_of (TOOLS ?E) ''nope'' = None" by (simp add: TOOLS_def)
  have s: "map_of (TOOLS ?E) ''save_quiz'' = Some (call_save_quiz ?E)" by (simp add: TOOLS_def)
  have g: "map_of (TOOLS ?E) ''grade_responses'' = Some (call_grade_responses ?E)"
    by (simp add: TOOLS_def)
  have a: "\<forall>kvs. JArr [] \<noteq> JObj kvs" by simp
  have p: "''responses'' \<in> set (parameters ''grade_responses'')" by (simp add: parameters_def)
  have q: "map_of [(''quiz_id'', JStr ''q'')] ''responses'' = None" by simp
  have t: "fst (call_save_quiz ?E (JObj [(''quiz_data'', JInt 5)]) empty_world) = Inl (TypeError ?m)"
    by code_simp
  from execute_tool_converts_type_errors [of ?E "''nope''" "JObj []" empty_world] n
  have c1: "execute_tool ?E (JStr ''nope'') (JObj []) empty_world
     = (Inr (error_result (''Unknown tool: '' @ ''nope'')), empty_world)
   \<and> contains ''nope'' (''Unknown tool: '' @ ''nope'')" by blast
  from execute_tool_converts_type_errors [of ?E "''save_quiz''" "JArr []" empty_world "call_save_quiz ?E"] s a
  have c2: "\<exists>msg. execute_tool ?E (JStr ''save_quiz'') (JArr []) empty_world
               = (Inr (error_result msg), empty_world)" by blast
  from execute_tool_converts_type_errors [of ?E "''grade_responses''" "JObj [(''quiz_id'', JStr ''q'')]"
      empty_world "call_grade_responses ?E" "[(''quiz_id'', JStr ''q'')]" "''responses''"] g p q
  have c3: "\<exists>msg. execute_tool ?E (JStr ''grade_responses'') (JObj [(''quiz_id'', JStr ''q'')]) empty_world
               = (Inr (error_result msg), empty_world)" by blast
  from execute_tool_converts_type_errors [of ?E "''save_quiz''" "JObj [(''quiz_data'', JInt 5)]"
      empty_world "call_save_quiz ?E" _ _ ?m] s t
  have c4: "fst (execute_tool ?E (JStr ''save_quiz'') (JObj [(''quiz_data'', JInt 5)]) empty_world)
     = Inr (error_result (''Invalid arguments for '' @ ''save_quiz'' @ '': '' @ ?m))"
    by (metis fst_conv)
  from c1 c2 c3 c4 show ?thesis by blast
qed

text \<open>
  Claim C2 as stated fails: the handler takes \<^verbatim>\<open>TypeError\<close> only. An empty response makes
  \<^verbatim>\<open>grade_responses\<close> raise \<^verbatim>\<open>IndexError\<close>, a number for the source text makes
  \<^verbatim>\<open>create_quiz\<close> raise \<^verbatim>\<open>AttributeError\<close>, and both leave \<^verbatim>\<open>execute_tool\<close>.
\<close>

theorem execute_tool_raises_counterexample:
  "fst (execute_tool (python one_second) (JStr ''grade_responses'')
          (JObj [(''quiz_id'', JStr ''quiz_20250101_120000''), (''responses'', JArr [JStr []])])
          saved_world)
     = Inl IndexError
   \<and> fst (execute_tool (python one_second) (JStr ''create_quiz'')
            (JObj [(''source_text'', JInt 5), (''num_questions'', JInt 1)]) empty_world)
     = Inl AttributeError"
  by code_simp


section \<open>The embedded-text encoding: a payload that does not parse\<close>

text \<open>
  Claim C1, as amended. \<^verbatim>\<open>extract_functools\<close> returns \<^verbatim>\<open>None\<close> when the marker is found
  and the bracketed contents fail to parse, the value it returns when there is no marker;
  on \<^verbatim>\<open>None\<close> the agent of \<^verbatim>\<open>quiz_slm_fixed.py\<close> takes the text for the final answer and
  stores it as the summary. The diagnostic \<^verbatim>\<open>test_mode_b_from_response\<close> of
  \<^verbatim>\<open>compare_modes.py\<close> does tell the two apart, in what it prints.
\<close>

theorem extract_functools_failure_is_none:
  "(re_search greedy_group text = Some g \<and> loads E (''['' @ g @ '']'') = None
      \<longrightarrow> extract_functools E text = None)
   \<and> (re_search greedy_group text = None \<longrightarrow> extract_functools E text = None)
   \<and> (extract_functools E (or_empty (message_content (cl schemas (messages st)))) = None \<longrightarrow>
        run_loop E cl schemas (Suc n) st
          = (None, st\<lparr>agent_context :=
                          (agent_context st)(''summary'' \<mapsto>
                             JStr (or_empty (message_content (cl schemas (messages st))))),
                        round_trips := Suc (round_trips st), finished := True\<rparr>))
   \<and> (re_search lazy_group text = Some g' \<and> loads E (''['' @ g' @ '']'') = None
        \<longrightarrow> test_mode_b_from_response E (Some text) = (None, [Mode_B_detected, JSON_parse_error]))
   \<and> (re_search lazy_group text = None
        \<longrightarrow> test_mode_b_from_response E (Some text) = (None, [Mode_B_not_detected]))"
  by (simp add: extract_functools_def test_mode_b_from_response_def Let_def)

theorem extract_functools_failure_is_none_witness:
  "extract_functools (python one_second) ''functools[oops]'' = None
   \<and> extract_functools (python one_second) ''no tools here'' = None
   \<and> run_loop (python one_second) (says ''functools[oops]'') [] (Suc 5)
        (initial_state ''task'' Map.empty empty_world)
      = (None, (initial_state ''task'' Map.empty empty_world)
                 \<lparr>agent_context :=
                    (agent_context (initial_state ''task'' Map.empty empty_world))(''summary'' \<mapsto>
                       JStr (or_empty (message_content (says ''functools[oops]'' []
                               (messages (initial_state ''task'' Map.empty empty_world)))))),
                  round_trips := Suc (round_trips (initial_state ''task'' Map.empty empty_world)),
                  finished := True\<rparr>)
   \<and> test_mode_b_from_response (python one_second) (Some ''functools[oops]'')
      = (None, [Mode_B_detected, JSON_parse_error])
   \<and> test_mode_b_from_response (python one_second) (Some ''no tools here'')
      = (None, [Mode_B_not_detected])"
proof -
  let ?E = "python one_second"
  let ?st = "initial_state ''task'' Map.empty empty_world"
  have a: "re_search greedy_group ''functools[oops]'' = Some ''oops''" by code_simp
  have b: "loads ?E (''['' @ ''oops'' @ '']'') = None" by code_simp
  have c: "re_search greedy_group ''no tools here'' = None" by code_simp
  have d: "re_search lazy_group ''functools[oops]'' = Some ''oops''" by code_simp
  have e: "re_search lazy_group ''no tools here'' = None" by code_simp
  have f: "extract_functools ?E (or_empty (message_content (says ''functools[oops]'' [] (messages ?st)))) = None"
    by code_simp
  from extract_functools_failure_is_none [of "''functools[oops]''" "''oops''" ?E
      "says ''functools[oops]''" "[]" ?st 5 "''oops''"] a b d f
  have 1: "extract_functools ?E ''functools[oops]'' = None"
    and 2: "run_loop ?E (says ''functools[oops]'') [] (Suc 5) ?st
      = (None, ?st\<lparr>agent_context :=
                    (agent_context ?st)(''summary'' \<mapsto>
                       JStr (or_empty (message_content (says ''functools[oops]'' [] (messages ?st))))),
                  round_trips := Suc (round_trips ?st), finished := True\<rparr>)"
    and 3: "test_mode_b_from_response ?E (Some ''functools[oops]'')
      = (None, [Mode_B_detected, JSON_parse_error])"
    by blast+
  from extract_functools_failure_is_none [of "''no tools here''" _ ?E] c e
  have 4: "extract_functools ?E ''no tools here'' = None"
    and 5: "test_mode_b_from_response ?E (Some ''no tools here'') = (None, [Mode_B_not_detected])"
    by blast+
  from 1 2 3 4 5 show ?thesis by blast
qed

text \<open>
  Claim C1 as stated fails: for the text \<^verbatim>\<open>functools[oops]\<close>, whose payload does not parse,
  and a text without the marker, \<^verbatim>\<open>extract_functools\<close> returns the same value, and the
  agent ends both runs alike, with the text as the summary.
\<close>

theorem extract_functools_malformed_counterexample:
  "re_search greedy_group ''functools[oops]'' = Some ''oops''
   \<and> loads (python one_second) (''['' @ ''oops'' @ '']'') = None
   \<and> re_search greedy_group ''no tools here'' = None
   \<and> extract_functools (python one_second) ''functools[oops]''
       = extract_functools (python one_second) ''no tools here''
   \<and> fst (run (python one_second) (says ''functools[oops]'') [] ''task'' Map.empty empty_world) = None
   \<and> finished (snd (run (python one_second) (says ''functools[oops]'') [] ''task'' Map.empty empty_world))
   \<and> agent_context (snd (run (python one_second) (says ''functools[oops]'') [] ''task'' Map.empty empty_world))
        ''summary'' = Some (JStr ''functools[oops]'')
   \<and> fst (run (python one_second) (says ''no tools here'') [] ''task'' Map.empty empty_world) = None
   \<and> finished (snd (run (python one_second) (says ''no tools here'') [] ''task'' Map.empty empty_world))
   \<and> agent_context (snd (run (python one_second) (says ''no tools here'') [] ''task'' Map.empty empty_world))
        ''summary'' = Some (JStr ''no tools here'')"
  by code_simp


section \<open>Structured calls come first\<close>













section \<open>The agents' loops\<close>

subsection \<open>The agent of \<^verbatim>\<open>quiz_slm_fixed.py\<close>\<close>

lemma update_context_other:
  assumes "update_context tool_name result ctx = Inr ctx'"
      and "k \<notin> {''quiz_data'', ''quiz_id'', ''grading_results'', ''report_path''}"
  shows "ctx' k = ctx k"
  using assms
  by (auto simp add: update_context_def and_then_def split: sum.splits if_splits)

lemma update_context_summary:
  "update_context tool_name result ctx = Inr ctx' \<Longrightarrow> ctx' ''summary'' = ctx ''summary''"
  by (rule update_context_other) simp_all

lemma run_call_frame:
  assumes "run_call E call st = (r, st')"
  shows "round_trips st' = round_trips st \<and> finished st' = finished st
       \<and> agent_context st' ''summary'' = agent_context st ''summary''"
  using assms
  by (auto simp add: run_call_def update_context_summary split: sum.splits prod.splits)

lemma run_call_messages:
  assumes "run_call E call st = (None, st')"
  shows "\<exists>result. execute_tool E (name_of call) (arguments_of call) (state_world st)
                     = (Inr result, state_world st')
               \<and> messages st' = messages st @ [observation E (name_of call) result]"
  using assms
  by (auto simp add: run_call_def name_of_def arguments_of_def split: sum.splits prod.splits)

lemma run_calls_frame:
  "run_calls E calls st = (r, st') \<Longrightarrow>
     round_trips st' = round_trips st \<and> finished st' = finished st
     \<and> agent_context st' ''summary'' = agent_context st ''summary''"
proof (induction calls arbitrary: st)
  case Nil
  then show ?case by simp
next
  case (Cons call calls)
  obtain r1 st1 where c: "run_call E call st = (r1, st1)" by (cases "run_call E call st")
  note f = run_call_frame [OF c]
  show ?case
  proof (cases r1)
    case None
    with Cons.prems c have "run_calls E calls st1 = (r, st')" by simp
    from Cons.IH [OF this] f show ?thesis by simp
  next
    case (Some e)
    with Cons.prems c have "st' = st1" by simp
    with f show ?thesis by simp
  qed
qed

lemma run_calls_messages:
  "run_calls E calls st = (None, st') \<Longrightarrow>
     messages st' = messages st
        @ map (\<lambda>(call, result). observation E (name_of call) result)
            (zip calls (results_in_order E calls (state_world st)))
     \<and> length (results_in_order E calls (state_world st)) = length calls"
proof (induction calls arbitrary: st)
  case Nil
  then show ?case by simp
next
  case (Cons call calls)
  obtain r1 st1 where c: "run_call E call st = (r1, st1)" by (cases "run_call E call st")
  show ?case
  proof (cases r1)
    case None
    with Cons.prems c have rest: "run_calls E calls st1 = (None, st')" by simp
    from run_call_messages [of E call st st1] c None
    obtain result where x: "execute_tool E (name_of call) (arguments_of call) (state_world st)
                     = (Inr result, state_world st1)"
      and m: "messages st1 = messages st @ [observation E (name_of call) result]" by blast
    from Cons.IH [OF rest] x m show ?thesis by simp
  next
    case (Some e)
    with Cons.prems c show ?thesis by simp
  qed
qed

lemma run_loop_bound:
  "run_loop E cl schemas n st = (r, st') \<Longrightarrow> round_trips st' \<le> round_trips st + n"
proof (induction n arbitrary: st)
  case 0
  then show ?case by simp
next
  case (Suc n)
  let ?text = "or_empty (message_content (cl schemas (messages st)))"
  let ?st1 = "st\<lparr>round_trips := Suc (round_trips st)\<rparr>"
  show ?case
  proof (cases "extract_functools E ?text")
    case None
    with Suc.prems show ?thesis by (auto simp add: Let_def)
  next
    case (Some fc)
    let ?st2 = "?st1\<lparr>messages := messages ?st1 @ [Turn ''assistant'' ?text]\<rparr>"
    show ?thesis
    proof (cases "py_iter fc")
      case (Inl e)
      with Some Suc.prems show ?thesis by (auto simp add: Let_def)
    next
      case (Inr calls)
      obtain r3 st3 where c: "run_calls E calls ?st2 = (r3, st3)" by (cases "run_calls E calls ?st2")
      from run_calls_frame [OF c] have f: "round_trips st3 = Suc (round_trips st)" by simp
      show ?thesis
      proof (cases r3)
        case None
        with Some Inr c Suc.prems have "run_loop E cl schemas n st3 = (r, st')"
          by (simp add: Let_def)
        from Suc.IH [OF this] f show ?thesis by simp
      next
        case (Some e)
        with \<open>extract_functools E ?text = Some fc\<close> Inr c Suc.prems have "st' = st3"
          by (simp add: Let_def)
        with f show ?thesis by simp
      qed
    qed
  qed
qed

lemma run_loop_exhausted:
  assumes "\<forall>msgs. extract_functools E (or_empty (message_content (cl schemas msgs))) \<noteq> None"
  shows "run_loop E cl schemas n st = (None, st') \<Longrightarrow>
           round_trips st' = round_trips st + n \<and> finished st' = finished st
           \<and> agent_context st' ''summary'' = agent_context st ''summary''"
proof (induction n arbitrary: st)
  case 0
  then show ?case by simp
next
  case (Suc n)
  let ?text = "or_empty (message_content (cl schemas (messages st)))"
  let ?st1 = "st\<lparr>round_trips := Suc (round_trips st)\<rparr>"
  let ?st2 = "?st1\<lparr>messages := messages ?st1 @ [Turn ''assistant'' ?text]\<rparr>"
  from assms obtain fc where x: "extract_functools E ?text = Some fc" by auto
  show ?case
  proof (cases "py_iter fc")
    case (Inl e)
    with x Suc.prems show ?thesis by (simp add: Let_def)
  next
    case (Inr calls)
    obtain r3 st3 where c: "run_calls E calls ?st2 = (r3, st3)" by (cases "run_calls E calls ?st2")
    from run_calls_frame [OF c]
    have f: "round_trips st3 = Suc (round_trips st) \<and> finished st3 = finished st
        \<and> agent_context st3 ''summary'' = agent_context st ''summary''" by simp
    show ?thesis
    proof (cases r3)
      case None
      with x Inr c Suc.prems have "run_loop E cl schemas n st3 = (None, st')"
        by (simp add: Let_def)
      from Suc.IH [OF this] f show ?thesis by simp
    next
      case (Some e)
      with x Inr c Suc.prems show ?thesis by (simp add: Let_def)
    qed
  qed
qed

lemma run_loop_done:
  "run_loop E cl schemas n st = (r, st') \<Longrightarrow> finished st' \<Longrightarrow> \<not> finished st
     \<Longrightarrow> agent_context st' ''summary'' \<noteq> None"
proof (induction n arbitrary: st)
  case 0
  then show ?case by simp
next
  case (Suc n)
  let ?text = "or_empty (message_content (cl schemas (messages st)))"
  let ?st1 = "st\<lparr>round_trips := Suc (round_trips st)\<rparr>"
  let ?st2 = "?st1\<lparr>messages := messages ?st1 @ [Turn ''assistant'' ?text]\<rparr>"
  show ?case
  proof (cases "extract_functools E ?text")
    case None
    with Suc.prems show ?thesis by (auto simp add: Let_def)
  next
    case (Some fc)
    show ?thesis
    proof (cases "py_iter fc")
      case (Inl e)
      with Some Suc.prems show ?thesis by (auto simp add: Let_def)
    next
      case (Inr calls)
      obtain r3 st3 where c: "run_calls E calls ?st2 = (r3, st3)" by (cases "run_calls E calls ?st2")
      from run_calls_frame [OF c] Suc.prems(3) have f: "\<not> finished st3" by simp
      show ?thesis
      proof (cases r3)
        case None
        with Some Inr c Suc.prems have "run_loop E cl schemas n st3 = (r, st')"
          by (simp add: Let_def)
        from Suc.IH [OF this Suc.prems(2) f] show ?thesis .
      next
        case (Some e)
        with \<open>extract_functools E ?text = Some fc\<close> Inr c Suc.prems have "st' = st3"
          by (simp add: Let_def)
        with f Suc.prems(2) show ?thesis by simp
      qed
    qed
  qed
qed

subsection \<open>The agent of \<^verbatim>\<open>quiz_slm_working.py\<close>\<close>

lemma run_tool_call_frame:
  assumes "run_tool_call E tc st = (r, st')"
  shows "round_trips st' = round_trips st \<and> finished st' = finished st
       \<and> agent_context st' ''summary'' = agent_context st ''summary''"
  using assms
  by (auto simp add: run_tool_call_def update_context_summary
      split: sum.splits prod.splits option.splits)

lemma run_tool_call_messages:
  assumes "run_tool_call E tc st = (None, st')"
  shows "\<exists>args result. loads E (function_arguments tc) = Some args
               \<and> call_tool E (function_name tc) args (state_world st) = (Inr result, state_world st')
               \<and> messages st' = messages st @ [tool_turn E tc result]"
  using assms
  by (auto simp add: run_tool_call_def call_tool_def split: sum.splits prod.splits option.splits)

lemma run_tool_calls_frame:
  "run_tool_calls E tcs st = (r, st') \<Longrightarrow>
     round_trips st' = round_trips st \<and> finished st' = finished st
     \<and> agent_context st' ''summary'' = agent_context st ''summary''"
proof (induction tcs arbitrary: st)
  case Nil
  then show ?case by simp
next
  case (Cons tc tcs)
  obtain r1 st1 where c: "run_tool_call E tc st = (r1, st1)" by (cases "run_tool_call E tc st")
  note f = run_tool_call_frame [OF c]
  show ?case
  proof (cases r1)
    case None
    with Cons.prems c have "run_tool_calls E tcs st1 = (r, st')" by simp
    from Cons.IH [OF this] f show ?thesis by simp
  next
    case (Some e)
    with Cons.prems c have "st' = st1" by simp
    with f show ?thesis by simp
  qed
qed

lemma run_tool_calls_messages:
  "run_tool_calls E tcs st = (None, st') \<Longrightarrow>
     messages st' = messages st
        @ map (\<lambda>(tc, result). tool_turn E tc result)
            (zip tcs (results_in_order_a E tcs (state_world st)))
     \<and> length (results_in_order_a E tcs (state_world st)) = length tcs"
proof (induction tcs arbitrary: st)
  case Nil
  then show ?case by simp
next
  case (Cons tc tcs)
  obtain r1 st1 where c: "run_tool_call E tc st = (r1, st1)" by (cases "run_tool_call E tc st")
  show ?case
  proof (cases r1)
    case None
    with Cons.prems c have rest: "run_tool_calls E tcs st1 = (None, st')" by simp
    from run_tool_call_messages [of E tc st st1] c None
    obtain args result where l: "loads E (function_arguments tc) = Some args"
      and x: "call_tool E (function_name tc) args (state_world st) = (Inr result, state_world st1)"
      and m: "messages st1 = messages st @ [tool_turn E tc result]" by blast
    from Cons.IH [OF rest] l x m show ?thesis by simp
  next
    case (Some e)
    with Cons.prems c show ?thesis by simp
  qed
qed

lemma run_loop_a_bound:
  "run_loop_a E cl schemas n st = (r, st') \<Longrightarrow> round_trips st' \<le> round_trips st + n"
proof (induction n arbitrary: st)
  case 0
  then show ?case by simp
next
  case (Suc n)
  let ?m = "cl schemas (messages st)"
  let ?st1 = "st\<lparr>round_trips := Suc (round_trips st)\<rparr>"
  let ?st2 = "?st1\<lparr>messages := messages ?st1 @ [AssistantTurn ?m]\<rparr>"
  show ?case
  proof (cases "populated (message_tool_calls ?m)")
    case None
    with Suc.prems show ?thesis by (auto simp add: Let_def)
  next
    case (Some tcs)
    obtain r3 st3 where c: "run_tool_calls E tcs ?st2 = (r3, st3)"
      by (cases "run_tool_calls E tcs ?st2")
    from run_tool_calls_frame [OF c] have f: "round_trips st3 = Suc (round_trips st)" by simp
    show ?thesis
    proof (cases r3)
      case None
      with Some c Suc.prems have "run_loop_a E cl schemas n st3 = (r, st')"
        by (simp add: Let_def)
      from Suc.IH [OF this] f show ?thesis by simp
    next
      case (Some e)
      with \<open>populated (message_tool_calls ?m) = Some tcs\<close> c Suc.prems have "st' = st3"
        by (simp add: Let_def)
      with f show ?thesis by simp
    qed
  qed
qed

lemma run_loop_a_exhausted:
  assumes "\<forall>msgs. populated (message_tool_calls (cl schemas msgs)) \<noteq> None"
  shows "run_loop_a E cl schemas n st = (None, st') \<Longrightarrow>
           round_trips st' = round_trips st + n \<and> finished st' = finished st
           \<and> agent_context st' ''summary'' = agent_context st ''summary''"
proof (induction n arbitrary: st)
  case 0
  then show ?case by simp
next
  case (Suc n)
  let ?m = "cl schemas (messages st)"
  let ?st1 = "st\<lparr>round_trips := Suc (round_trips st)\<rparr>"
  let ?st2 = "?st1\<lparr>messages := messages ?st1 @ [AssistantTurn ?m]\<rparr>"
  from assms obtain tcs where x: "populated (message_tool_calls ?m) = Some tcs" by auto
  obtain r3 st3 where c: "run_tool_calls E tcs ?st2 = (r3, st3)"
    by (cases "run_tool_calls E tcs ?st2")
  from run_tool_calls_frame [OF c]
  have f: "round_trips st3 = Suc (round_trips st) \<and> finished st3 = finished st
      \<and> agent_context st3 ''summary'' = agent_context st ''summary''" by simp
  show ?case
  proof (cases r3)
    case None
    with x c Suc.prems have "run_loop_a E cl schemas n st3 = (None, st')"
      by (simp add: Let_def)
    from Suc.IH [OF this] f show ?thesis by simp
  next
    case (Some e)
    with x c Suc.prems show ?thesis by (simp add: Let_def)
  qed
qed

lemma run_loop_a_done:
  "run_loop_a E cl schemas n st = (r, st') \<Longrightarrow> finished st' \<Longrightarrow> \<not> finished st
     \<Longrightarrow> agent_context st' ''summary'' \<noteq> None"
proof (induction n arbitrary: st)
  case 0
  then show ?case by simp
next
  case (Suc n)
  let ?m = "cl schemas (messages st)"
  let ?st1 = "st\<lparr>round_trips := Suc (round_trips st)\<rparr>"
  let ?st2 = "?st1\<lparr>messages := messages ?st1 @ [AssistantTurn ?m]\<rparr>"
  show ?case
  proof (cases "populated (message_tool_calls ?m)")
    case None
    with Suc.prems show ?thesis by (auto simp add: Let_def)
  next
    case (Some tcs)
    obtain r3 st3 where c: "run_tool_calls E tcs ?st2 = (r3, st3)"
      by (cases "run_tool_calls E tcs ?st2")
    from run_tool_calls_frame [OF c] Suc.prems(3) have f: "\<not> finished st3" by simp
    show ?thesis
    proof (cases r3)
      case None
      with Some c Suc.prems have "run_loop_a E cl schemas n st3 = (r, st')"
        by (simp add: Let_def)
      from Suc.IH [OF this Suc.prems(2) f] show ?thesis .
    next
      case (Some e)
      with \<open>populated (message_tool_calls ?m) = Some tcs\<close> c Suc.prems have "st' = st3"
        by (simp add: Let_def)
      with f Suc.prems(2) show ?thesis by simp
    qed
  qed
qed

section \<open>The iteration ceiling\<close>

text \<open>Two runs that never raise: the endpoint asks for a tool that does not exist.\<close>

lemma run_call_unknown:
  "fst (run_call E (JObj [(''name'', JStr ''nope'')]) st) = None"
  by (simp add: run_call_def py_get_def execute_tool_def registry_lookup_def TOOLS_def
      update_context_def named_with_def and_then_def)

lemma unknown_request_loop:
  "fst (run_loop (python one_second) (says unknown_request) schemas n st) = None"
proof (induction n arbitrary: st)
  case 0
  show ?case by simp
next
  case (Suc n)
  have x: "extract_functools (python one_second) unknown_request
             = Some (JArr [JObj [(''name'', JStr ''nope'')]])"
    by code_simp
  let ?st2 = "st\<lparr>round_trips := Suc (round_trips st),
                  messages := messages st @ [Turn ''assistant'' unknown_request]\<rparr>"
  obtain r st3 where c: "run_call (python one_second) (JObj [(''name'', JStr ''nope'')]) ?st2 = (r, st3)"
    by (cases "run_call (python one_second) (JObj [(''name'', JStr ''nope'')]) ?st2")
  with run_call_unknown [of "python one_second" ?st2] have "r = None" by simp
  with c have "run_loop (python one_second) (says unknown_request) schemas (Suc n) st
      = run_loop (python one_second) (says unknown_request) schemas n st3"
    by (simp add: Let_def says_def or_empty_def x py_iter_def)
  with Suc.IH [of st3] show ?case by simp
qed

lemma run_tool_call_unknown:
  "fst (run_tool_call (python one_second) unknown_call st) = None"
proof -
  have l: "loads (python one_second) (function_arguments unknown_call) = Some (JObj [])"
    by code_simp
  have n: "function_name unknown_call = ''nope''" by (simp add: unknown_call_def)
  show ?thesis
    by (simp add: run_tool_call_def call_tool_def l n TOOLS_def update_context_def named_with_def
        and_then_def)
qed

lemma unknown_call_loop:
  "fst (run_loop_a (python one_second) (asks [unknown_call]) schemas n st) = None"
proof (induction n arbitrary: st)
  case 0
  show ?case by simp
next
  case (Suc n)
  let ?m = "asks [unknown_call] schemas (messages st)"
  let ?st2 = "st\<lparr>round_trips := Suc (round_trips st), messages := messages st @ [AssistantTurn ?m]\<rparr>"
  obtain r st3 where c: "run_tool_call (python one_second) unknown_call ?st2 = (r, st3)"
    by (cases "run_tool_call (python one_second) unknown_call ?st2")
  with run_tool_call_unknown [of ?st2] have "r = None" by simp
  with c have "run_loop_a (python one_second) (asks [unknown_call]) schemas (Suc n) st
      = run_loop_a (python one_second) (asks [unknown_call]) schemas n st3"
    by (simp add: Let_def asks_def populated_def)
  with Suc.IH [of st3] show ?case by simp
qed

text \<open>
  Claim C5, as amended. An agent never sends more requests than its ceiling, 6 in
  \<^verbatim>\<open>quiz_slm_fixed.py\<close> and 8 in \<^verbatim>\<open>quiz_slm_working.py\<close>. When every response requests
  at least one tool call and no exception leaves the run, the agent sends exactly as many
  requests as its ceiling and returns the context without having stored a summary:
  the \<^verbatim>\<open>summary\<close> key is as it was in the context passed in. A run that ended on a response
  without a tool call has a summary in its context.
\<close>

theorem iteration_ceiling:
  "round_trips (snd (run E cl tools task ctx w)) \<le> max_iterations
   \<and> ((\<forall>msgs. extract_functools E (or_empty (message_content (cl (tool_schemas tools) msgs))) \<noteq> None)
        \<and> fst (run E cl tools task ctx w) = None \<longrightarrow>
          round_trips (snd (run E cl tools task ctx w)) = max_iterations
        \<and> \<not> finished (snd (run E cl tools task ctx w))
        \<and> agent_context (snd (run E cl tools task ctx w)) ''summary'' = ctx ''summary'')
   \<and> (finished (snd (run E cl tools task ctx w)) \<longrightarrow>
        agent_context (snd (run E cl tools task ctx w)) ''summary'' \<noteq> None)
   \<and> round_trips (snd (run_a E cl tools task ctx w)) \<le> max_iterations_a
   \<and> ((\<forall>msgs. populated (message_tool_calls (cl (tool_schemas tools) msgs)) \<noteq> None)
        \<and> fst (run_a E cl tools task ctx w) = None \<longrightarrow>
          round_trips (snd (run_a E cl tools task ctx w)) = max_iterations_a
        \<and> \<not> finished (snd (run_a E cl tools task ctx w))
        \<and> agent_context (snd (run_a E cl tools task ctx w)) ''summary'' = ctx ''summary'')
   \<and> (finished (snd (run_a E cl tools task ctx w)) \<longrightarrow>
        agent_context (snd (run_a E cl tools task ctx w)) ''summary'' \<noteq> None)"
proof -
  let ?st = "initial_state task ctx w"
  have i: "round_trips ?st = 0" "\<not> finished ?st" "agent_context ?st = ctx"
    by (simp_all add: initial_state_def)
  obtain r st' where b: "run_loop E cl (tool_schemas tools) max_iterations ?st = (r, st')"
    by (cases "run_loop E cl (tool_schemas tools) max_iterations ?st")
  obtain ra sta where a: "run_loop_a E cl (tool_schemas tools) max_iterations_a ?st = (ra, sta)"
    by (cases "run_loop_a E cl (tool_schemas tools) max_iterations_a ?st")
  have 1: "round_trips st' \<le> max_iterations"
    using run_loop_bound [OF b] i by simp
  have 2: "round_trips st' = max_iterations \<and> \<not> finished st'
        \<and> agent_context st' ''summary'' = ctx ''summary''"
    if "\<forall>msgs. extract_functools E (or_empty (message_content (cl (tool_schemas tools) msgs))) \<noteq> None"
      and "r = None"
    using run_loop_exhausted [where E = E and cl = cl and schemas = "tool_schemas tools"
        and n = max_iterations and st = "?st" and st' = st'] b that i by simp
  have 3: "agent_context st' ''summary'' \<noteq> None" if "finished st'"
    using run_loop_done [OF b that] i by simp
  have 4: "round_trips sta \<le> max_iterations_a"
    using run_loop_a_bound [OF a] i by simp
  have 5: "round_trips sta = max_iterations_a \<and> \<not> finished sta
        \<and> agent_context sta ''summary'' = ctx ''summary''"
    if "\<forall>msgs. populated (message_tool_calls (cl (tool_schemas tools) msgs)) \<noteq> None"
      and "ra = None"
    using run_loop_a_exhausted [where E = E and cl = cl and schemas = "tool_schemas tools"
        and n = max_iterations_a and st = "?st" and st' = sta] a that i by simp
  have 6: "agent_context sta ''summary'' \<noteq> None" if "finished sta"
    using run_loop_a_done [OF a that] i by simp
  from 1 2 3 4 5 6 show ?thesis
    by (simp add: run_def run_a_def a b)
qed

theorem iteration_ceiling_witness:
  "round_trips (snd (run (python one_second) (says unknown_request) quiz_master_tools ''task''
                       Map.empty empty_world)) = max_iterations
   \<and> \<not> finished (snd (run (python one_second) (says unknown_request) quiz_master_tools ''task''
                         Map.empty empty_world))
   \<and> agent_context (snd (run (python one_second) (says unknown_request) quiz_master_tools ''task''
                            Map.empty empty_world)) ''summary'' = Map.empty ''summary''
   \<and> agent_context (snd (run (python one_second) (says ''done'') quiz_master_tools ''task''
                            Map.empty empty_world)) ''summary'' \<noteq> None
   \<and> round_trips (snd (run_a (python one_second) (asks [unknown_call]) quiz_master_tools ''task''
                         Map.empty empty_world)) = max_iterations_a
   \<and> \<not> finished (snd (run_a (python one_second) (asks [unknown_call]) quiz_master_tools ''task''
                           Map.empty empty_world))
   \<and> agent_context (snd (run_a (python one_second) (asks [unknown_call]) quiz_master_tools ''task''
                            Map.empty empty_world)) ''summary'' = Map.empty ''summary''
   \<and> agent_context (snd (run_a (python one_second) (says ''done'') quiz_master_tools ''task''
                            Map.empty empty_world)) ''summary'' \<noteq> None"
proof -
  let ?E = "python one_second"
  have x: "extract_functools ?E unknown_request \<noteq> None" by code_simp
  have h1: "\<forall>msgs. extract_functools ?E
              (or_empty (message_content (says unknown_request (tool_schemas quiz_master_tools) msgs))) \<noteq> None"
    using x by (simp add: says_def or_empty_def)
  have h2: "fst (run ?E (says unknown_request) quiz_master_tools ''task'' Map.empty empty_world) = None"
    by (simp add: run_def unknown_request_loop)
  have h3: "\<forall>msgs. populated (message_tool_calls (asks [unknown_call] (tool_schemas quiz_master_tools) msgs))
              \<noteq> None"
    by (simp add: asks_def populated_def)
  have h4: "fst (run_a ?E (asks [unknown_call]) quiz_master_tools ''task'' Map.empty empty_world) = None"
    by (simp add: run_a_def unknown_call_loop)
  have h5: "finished (snd (run ?E (says ''done'') quiz_master_tools ''task'' Map.empty empty_world))"
    by code_simp
  have h6: "finished (snd (run_a ?E (says ''done'') quiz_master_tools ''task'' Map.empty empty_world))"
    by code_simp
  from iteration_ceiling [of ?E "says unknown_request" quiz_master_tools "''task''" Map.empty empty_world]
    h1 h2
  have 1: "round_trips (snd (run ?E (says unknown_request) quiz_master_tools ''task''
                       Map.empty empty_world)) = max_iterations
   \<and> \<not> finished (snd (run ?E (says unknown_request) quiz_master_tools ''task''
                         Map.empty empty_world))
   \<and> agent_context (snd (run ?E (says unknown_request) quiz_master_tools ''task''
                            Map.empty empty_world)) ''summary'' = Map.empty ''summary''"
    by blast
  from iteration_ceiling [of ?E "asks [unknown_call]" quiz_master_tools "''task''" Map.empty empty_world]
    h3 h4
  have 2: "round_trips (snd (run_a ?E (asks [unknown_call]) quiz_master_tools ''task''
                         Map.empty empty_world)) = max_iterations_a
   \<and> \<not> finished (snd (run_a ?E (asks [unknown_call]) quiz_master_tools ''task''
                           Map.empty empty_world))
   \<and> agent_context (snd (run_a ?E (asks [unknown_call]) quiz_master_tools ''task''
                            Map.empty empty_world)) ''summary'' = Map.empty ''summary''"
    by blast
  from iteration_ceiling [of ?E "says ''done''" quiz_master_tools "''task''" Map.empty empty_world]
    h5 h6
  have 3: "agent_context (snd (run ?E (says ''done'') quiz_master_tools ''task''
                            Map.empty empty_world)) ''summary'' \<noteq> None
   \<and> agent_context (snd (run_a ?E (says ''done'') quiz_master_tools ''task''
                            Map.empty empty_world)) ''summary'' \<noteq> None"
    by blast
  from 1 2 3 show ?thesis by blast
qed

text \<open>
  Claim C5 as stated fails: a response that requests a tool call can end the run at its
  first iteration with an exception. In \<^verbatim>\<open>quiz_slm_fixed.py\<close> a \<^verbatim>\<open>create_quiz\<close> call whose
  source text is a number raises \<^verbatim>\<open>AttributeError\<close>, which \<^verbatim>\<open>execute_tool\<close> does not take;
  in \<^verbatim>\<open>quiz_slm_working.py\<close> a structured call whose arguments are not JSON raises
  \<^verbatim>\<open>JSONDecodeError\<close>.
\<close>

theorem iteration_ceiling_counterexample:
  "extract_functools (python one_second) bad_request \<noteq> None
   \<and> fst (run (python one_second) (says bad_request) quiz_master_tools ''task'' Map.empty empty_world)
       = Some AttributeError
   \<and> round_trips (snd (run (python one_second) (says bad_request) quiz_master_tools ''task''
                          Map.empty empty_world)) = 1
   \<and> max_iterations = 6
   \<and> populated (message_tool_calls (asks [broken_call] (tool_schemas quiz_master_tools) []))
       = Some [broken_call]
   \<and> fst (run_a (python one_second) (asks [broken_call]) quiz_master_tools ''task'' Map.empty empty_world)
       = Some JSONDecodeError
   \<and> round_trips (snd (run_a (python one_second) (asks [broken_call]) quiz_master_tools ''task''
                          Map.empty empty_world)) = 1
   \<and> max_iterations_a = 8"
  by code_simp


section \<open>A batch of tool calls\<close>

text \<open>
  Claim C6, as amended. When a response carries a batch of tool calls and no call of the
  batch raises an exception that leaves the loop, the iteration appends the assistant
  turn and then one observation for each call, in the order of the batch; the
  observation of a call carries its tool name and the result of executing it in the world
  that the calls before it left. The loop then goes on from that state. In
  \<^verbatim>\<open>quiz_slm_fixed.py\<close> an observation is a turn of the role \<^verbatim>\<open>user\<close>, in
  \<^verbatim>\<open>quiz_slm_working.py\<close> a turn of the role \<^verbatim>\<open>tool\<close> with the identifier of the call.
\<close>

theorem batch_in_order:
  "(extract_functools E (or_empty (message_content (cl schemas (messages st)))) = Some fc
      \<and> py_iter fc = Inr batch
      \<and> fst (run_calls E batch
                (st\<lparr>round_trips := Suc (round_trips st),
                    messages := messages st
                      @ [Turn ''assistant'' (or_empty (message_content (cl schemas (messages st))))]\<rparr>))
          = None \<longrightarrow>
        run_loop E cl schemas (Suc n) st
          = run_loop E cl schemas n
              (snd (run_calls E batch
                      (st\<lparr>round_trips := Suc (round_trips st),
                          messages := messages st
                            @ [Turn ''assistant'' (or_empty (message_content (cl schemas (messages st))))]\<rparr>)))
      \<and> messages (snd (run_calls E batch
                      (st\<lparr>round_trips := Suc (round_trips st),
                          messages := messages st
                            @ [Turn ''assistant'' (or_empty (message_content (cl schemas (messages st))))]\<rparr>)))
          = messages st
            @ [Turn ''assistant'' (or_empty (message_content (cl schemas (messages st))))]
            @ map (\<lambda>(call, result). observation E (name_of call) result)
                (zip batch (results_in_order E batch (state_world st)))
      \<and> length (results_in_order E batch (state_world st)) = length batch)
   \<and> (populated (message_tool_calls (cl schemas (messages st))) = Some tcs
      \<and> fst (run_tool_calls E tcs
                (st\<lparr>round_trips := Suc (round_trips st),
                    messages := messages st @ [AssistantTurn (cl schemas (messages st))]\<rparr>))
          = None \<longrightarrow>
        run_loop_a E cl schemas (Suc n) st
          = run_loop_a E cl schemas n
              (snd (run_tool_calls E tcs
                      (st\<lparr>round_trips := Suc (round_trips st),
                          messages := messages st @ [AssistantTurn (cl schemas (messages st))]\<rparr>)))
      \<and> messages (snd (run_tool_calls E tcs
                      (st\<lparr>round_trips := Suc (round_trips st),
                          messages := messages st @ [AssistantTurn (cl schemas (messages st))]\<rparr>)))
          = messages st
            @ [AssistantTurn (cl schemas (messages st))]
            @ map (\<lambda>(tc, result). tool_turn E tc result)
                (zip tcs (results_in_order_a E tcs (state_world st)))
      \<and> length (results_in_order_a E tcs (state_world st)) = length tcs)"
proof (intro conjI impI)
  let ?text = "or_empty (message_content (cl schemas (messages st)))"
  let ?st2 = "st\<lparr>round_trips := Suc (round_trips st),
                  messages := messages st @ [Turn ''assistant'' ?text]\<rparr>"
  assume a: "extract_functools E ?text = Some fc \<and> py_iter fc = Inr batch
      \<and> fst (run_calls E batch ?st2) = None"
  then have c: "run_calls E batch ?st2 = (None, snd (run_calls E batch ?st2))"
    by (simp add: prod_eq_iff)
  obtain st3 where s: "snd (run_calls E batch ?st2) = st3" by simp
  with c have c': "run_calls E batch ?st2 = (None, st3)" by simp
  from a c' show "run_loop E cl schemas (Suc n) st
      = run_loop E cl schemas n (snd (run_calls E batch ?st2))"
    by (simp add: Let_def s)
  from run_calls_messages [OF c'] s
  show "messages (snd (run_calls E batch ?st2))
      = messages st @ [Turn ''assistant'' ?text]
        @ map (\<lambda>(call, result). observation E (name_of call) result)
            (zip batch (results_in_order E batch (state_world st)))"
    by simp
  from run_calls_messages [OF c']
  show "length (results_in_order E batch (state_world st)) = length batch" by simp
next
  let ?m = "cl schemas (messages st)"
  let ?st2 = "st\<lparr>round_trips := Suc (round_trips st), messages := messages st @ [AssistantTurn ?m]\<rparr>"
  assume a: "populated (message_tool_calls ?m) = Some tcs \<and> fst (run_tool_calls E tcs ?st2) = None"
  obtain st3 where s: "snd (run_tool_calls E tcs ?st2) = st3" by simp
  with a have c': "run_tool_calls E tcs ?st2 = (None, st3)"
    by (simp add: prod_eq_iff)
  from a c' show "run_loop_a E cl schemas (Suc n) st
      = run_loop_a E cl schemas n (snd (run_tool_calls E tcs ?st2))"
    by (simp add: Let_def s)
  from run_tool_calls_messages [OF c'] s
  show "messages (snd (run_tool_calls E tcs ?st2))
      = messages st @ [AssistantTurn ?m]
        @ map (\<lambda>(tc, result). tool_turn E tc result)
            (zip tcs (results_in_order_a E tcs (state_world st)))"
    by simp
  from run_tool_calls_messages [OF c']
  show "length (results_in_order_a E tcs (state_world st)) = length tcs" by simp
qed

theorem batch_in_order_witness:
  "messages (snd (run_calls (python one_second) two_calls
                    (start\<lparr>round_trips := Suc (round_trips start),
                           messages := messages start
                             @ [Turn ''assistant''
                                  (or_empty (message_content (says two_requests [] (messages start))))]\<rparr>)))
     = messages start
       @ [Turn ''assistant'' (or_empty (message_content (says two_requests [] (messages start))))]
       @ map (\<lambda>(call, result). observation (python one_second) (name_of call) result)
           (zip two_calls (results_in_order (python one_second) two_calls (state_world start)))
   \<and> length (results_in_order (python one_second) two_calls (state_world start)) = length two_calls
   \<and> messages (snd (run_tool_calls (python one_second) [unknown_call, load_call]
                    (start\<lparr>round_trips := Suc (round_trips start),
                           messages := messages start
                             @ [AssistantTurn (asks [unknown_call, load_call] [] (messages start))]\<rparr>)))
     = messages start
       @ [AssistantTurn (asks [unknown_call, load_call] [] (messages start))]
       @ map (\<lambda>(tc, result). tool_turn (python one_second) tc result)
           (zip [unknown_call, load_call]
              (results_in_order_a (python one_second) [unknown_call, load_call] (state_world start)))
   \<and> length (results_in_order_a (python one_second) [unknown_call, load_call] (state_world start))
     = length [unknown_call, load_call]"
proof -
  let ?E = "python one_second"
  have x: "extract_functools ?E two_requests = Some (JArr two_calls)" by code_simp
  have h1: "extract_functools ?E (or_empty (message_content (says two_requests [] (messages start))))
              = Some (JArr two_calls)"
    using x by (simp add: says_def or_empty_def)
  have h2: "py_iter (JArr two_calls) = Inr two_calls" by (simp add: py_iter_def)
  have h3: "fst (run_calls ?E two_calls
                  (start\<lparr>round_trips := Suc (round_trips start),
                         messages := messages start
                           @ [Turn ''assistant''
                                (or_empty (message_content (says two_requests [] (messages start))))]\<rparr>))
              = None"
    by code_simp
  have h4: "populated (message_tool_calls (asks [unknown_call, load_call] [] (messages start)))
              = Some [unknown_call, load_call]"
    by (simp add: asks_def populated_def)
  have h5: "fst (run_tool_calls ?E [unknown_call, load_call]
                  (start\<lparr>round_trips := Suc (round_trips start),
                         messages := messages start
                           @ [AssistantTurn (asks [unknown_call, load_call] [] (messages start))]\<rparr>))
              = None"
    by code_simp
  from batch_in_order [where E = ?E and cl = "says two_requests" and schemas = "[]" and st = start
      and fc = "JArr two_calls" and batch = two_calls and n = 0] h1 h2 h3
  have 1: "messages (snd (run_calls ?E two_calls
                    (start\<lparr>round_trips := Suc (round_trips start),
                           messages := messages start
                             @ [Turn ''assistant''
                                  (or_empty (message_content (says two_requests [] (messages start))))]\<rparr>)))
     = messages start
       @ [Turn ''assistant'' (or_empty (message_content (says two_requests [] (messages start))))]
       @ map (\<lambda>(call, result). observation ?E (name_of call) result)
           (zip two_calls (results_in_order ?E two_calls (state_world start)))
   \<and> length (results_in_order ?E two_calls (state_world start)) = length two_calls"
    by blast
  from batch_in_order [where E = ?E and cl = "asks [unknown_call, load_call]" and schemas = "[]"
      and st = start and tcs = "[unknown_call, load_call]" and n = 0] h4 h5
  have 2: "messages (snd (run_tool_calls ?E [unknown_call, load_call]
                    (start\<lparr>round_trips := Suc (round_trips start),
                           messages := messages start
                             @ [AssistantTurn (asks [unknown_call, load_call] [] (messages start))]\<rparr>)))
     = messages start
       @ [AssistantTurn (asks [unknown_call, load_call] [] (messages start))]
       @ map (\<lambda>(tc, result). tool_turn ?E tc result)
           (zip [unknown_call, load_call]
              (results_in_order_a ?E [unknown_call, load_call] (state_world start)))
   \<and> length (results_in_order_a ?E [unknown_call, load_call] (state_world start))
     = length [unknown_call, load_call]"
    by blast
  from 1 2 show ?thesis by blast
qed

text \<open>
  Claim C6 as stated fails: when the first of two calls raises, the run ends there; the
  second call is not executed and the conversation has gained the assistant turn and no
  observation.
\<close>

theorem batch_in_order_counterexample:
  \<open>extract_functools (python one_second) bad_then_good
     = Some (JArr [JObj [(''name'', JStr ''create_quiz''),
                         (''arguments'', JObj [(''source_text'', JInt 5), (''num_questions'', JInt 1)])],
                   JObj [(''name'', JStr ''nope'')]])
   \<and> run_loop (python one_second) (says bad_then_good) [] (Suc 0)
         (initial_state ''task'' Map.empty empty_world)
       = (Some AttributeError,
          (initial_state ''task'' Map.empty empty_world)
            \<lparr>messages := [Turn ''user'' ''task'', Turn ''assistant'' bad_then_good],
             round_trips := 1\<rparr>)
   \<and> run_loop_a (python one_second) (asks [broken_call, unknown_call]) [] (Suc 0)
         (initial_state ''task'' Map.empty empty_world)
       = (Some JSONDecodeError,
          (initial_state ''task'' Map.empty empty_world)
            \<lparr>messages := [Turn ''user'' ''task'',
                          AssistantTurn \<lparr>message_content = None,
                                         message_tool_calls = Some [broken_call, unknown_call]\<rparr>],
             round_trips := 1\<rparr>)\<close>
proof -
  let ?E = "python one_second"
  let ?c1 = "JObj [(''name'', JStr ''create_quiz''),
                   (''arguments'', JObj [(''source_text'', JInt 5), (''num_questions'', JInt 1)])]"
  let ?c2 = "JObj [(''name'', JStr ''nope'')]"
  have x: "extract_functools ?E bad_then_good = Some (JArr [?c1, ?c2])" by code_simp
  have e: "fst (execute_tool ?E (JStr ''create_quiz'')
                 (JObj [(''source_text'', JInt 5), (''num_questions'', JInt 1)]) empty_world)
             = Inl AttributeError" by code_simp
  have w: "snd (execute_tool ?E (JStr ''create_quiz'')
                 (JObj [(''source_text'', JInt 5), (''num_questions'', JInt 1)]) empty_world)
             = empty_world"
    by (simp add: execute_tool_world registry_lookup_def TOOLS_def call_create_quiz_def)
  from e w have ex: "execute_tool ?E (JStr ''create_quiz'')
                 (JObj [(''source_text'', JInt 5), (''num_questions'', JInt 1)]) empty_world
             = (Inl AttributeError, empty_world)"
    by (simp add: prod_eq_iff)
  have l: "loads ?E (function_arguments broken_call) = None" by code_simp
  have 1: "run_loop ?E (says bad_then_good) [] (Suc 0) (initial_state ''task'' Map.empty empty_world)
       = (Some AttributeError,
          (initial_state ''task'' Map.empty empty_world)
            \<lparr>messages := [Turn ''user'' ''task'', Turn ''assistant'' bad_then_good],
             round_trips := 1\<rparr>)"
    by (simp add: Let_def says_def or_empty_def x py_iter_def run_call_def py_get_def ex
        initial_state_def)
  have 2: "run_loop_a ?E (asks [broken_call, unknown_call]) [] (Suc 0)
         (initial_state ''task'' Map.empty empty_world)
       = (Some JSONDecodeError,
          (initial_state ''task'' Map.empty empty_world)
            \<lparr>messages := [Turn ''user'' ''task'',
                          AssistantTurn \<lparr>message_content = None,
                                         message_tool_calls = Some [broken_call, unknown_call]\<rparr>],
             round_trips := 1\<rparr>)"
    by (simp add: Let_def asks_def populated_def run_tool_call_def l initial_state_def)
  from x 1 2 show ?thesis by blast
qed


section \<open>The coordinators and the quiz identifier\<close>

lemma display_question_ok: "display_question (question sentences i) = Inr ()"
  by (simp add: display_question_def question_def Let_def py_item_def py_iter_def and_then_def)

lemma display_questions_ok: "display_questions (map (question sentences) xs) = None"
  by (induction xs) (simp_all add: display_question_ok)

lemma create_quiz_ok:
  "\<exists>k. create_quiz (JStr source_text) (JInt num_questions)
         = Inr (JObj [(''questions'', JArr (map (question (sentences_of source_text)) [0..<k])),
                      (''count'', JInt (int k))])"
  by (simp add: create_quiz_def range_min_def and_then_def Let_def)

lemma save_quiz_ok:
  "\<exists>w1. save_quiz E (JObj ((''questions'', JArr qs) # rest)) w
     = (Inr (JObj [(''quiz_id'', JStr (''quiz_'' @ now_stamp E (clock_reads w))),
                   (''path'', JStr (output_path ((''quiz_'' @ now_stamp E (clock_reads w)) @ ''.json'')))]),
        w1)"
  by (simp add: save_quiz_def truthy_def py_contains_def py_item_def Let_def)

lemma graded_truthy:
  "grader_called_with (coordinator_run E cl source_text num_questions answers w) = Some (quiz_id, responses)
     \<Longrightarrow> truthy quiz_id"
  by (auto simp add: grader_called_with_def coordinator_run_def Let_def
      split: prod.splits option.splits if_splits)

lemma take_and_grade_called:
  "grader_called_with (take_and_grade E cl ctx quiz_id answers w) = Some (q, responses)
     \<Longrightarrow> q = quiz_id"
  by (auto simp add: grader_called_with_def take_and_grade_def Let_def split: option.splits)

lemma take_and_grade_truthy:
  "grader_called_with (take_and_grade E cl ctx quiz_id answers w) = Some (q, responses)
     \<Longrightarrow> truthy quiz_id \<Longrightarrow> truthy q"
  using take_and_grade_called by blast

lemma graded_truthy_a:
  assumes "grader_called_with (coordinator_run_a E cl source_text num_questions answers w)
             = Some (quiz_id, responses)"
  shows "truthy quiz_id"
proof -
  obtain r st where p: "run_a E cl quiz_master_tools (quiz_task_a num_questions source_text) Map.empty w
      = (r, st)"
    by (cases "run_a E cl quiz_master_tools (quiz_task_a num_questions source_text) Map.empty w")
  show ?thesis
  proof (cases r)
    case (Some e)
    with p assms show ?thesis
      by (simp add: coordinator_run_a_def grader_called_with_def)
  next
    case None
    show ?thesis
    proof (cases "missing (agent_context st ''quiz_id'')")
      case False
      then obtain q where q: "agent_context st ''quiz_id'' = Some q" "truthy q"
        by (auto simp add: missing_def split: option.splits)
      with p None False assms
      have "grader_called_with (take_and_grade E cl (agent_context st) q answers (state_world st))
              = Some (quiz_id, responses)"
        by (simp add: coordinator_run_a_def)
      from take_and_grade_truthy [OF this q(2)] show ?thesis .
    next
      case True
      from create_quiz_ok [of source_text num_questions]
      obtain k where c: "create_quiz (JStr source_text) (JInt num_questions)
         = Inr (JObj [(''questions'', JArr (map (question (sentences_of source_text)) [0..<k])),
                      (''count'', JInt (int k))])" by blast
      let ?quiz = "JObj [(''questions'', JArr (map (question (sentences_of source_text)) [0..<k])),
                      (''count'', JInt (int k))]"
      let ?id = "JStr (''quiz_'' @ now_stamp E (clock_reads (state_world st)))"
      from save_quiz_ok [of E "map (question (sentences_of source_text)) [0..<k]"
          "[(''count'', JInt (int k))]" "state_world st"]
      obtain w1 where s: "save_quiz E ?quiz (state_world st)
          = (Inr (JObj [(''quiz_id'', ?id),
                        (''path'', JStr (output_path ((''quiz_'' @ now_stamp E (clock_reads (state_world st)))
                                                       @ ''.json'')))]), w1)"
        by blast
      have t: "truthy ?id" by (simp add: truthy_def)
      from p None True c s assms
      have "grader_called_with
              (take_and_grade E cl ((agent_context st)(''quiz_data'' \<mapsto> ?quiz, ''quiz_id'' \<mapsto> ?id))
                 ?id answers w1)
              = Some (quiz_id, responses)"
        by (simp add: coordinator_run_a_def py_get_def Let_def truthy_def)
      from take_and_grade_truthy [OF this t] show ?thesis .
    qed
  qed
qed

lemma fallback_goes_on:
  assumes "fst (run_a E cl quiz_master_tools (quiz_task_a num_questions source_text) Map.empty w) = None"
      and "missing (agent_context
              (snd (run_a E cl quiz_master_tools (quiz_task_a num_questions source_text) Map.empty w))
              ''quiz_id'')"
  shows "grader_called_with (coordinator_run_a E cl source_text num_questions answers w)
           = Some (JStr (''quiz_'' @ now_stamp E (clock_reads (state_world
                     (snd (run_a E cl quiz_master_tools (quiz_task_a num_questions source_text)
                             Map.empty w))))),
                   parse_answers answers)"
proof -
  obtain r st where p: "run_a E cl quiz_master_tools (quiz_task_a num_questions source_text) Map.empty w
      = (r, st)"
    by (cases "run_a E cl quiz_master_tools (quiz_task_a num_questions source_text) Map.empty w")
  with assms have r: "r = None" and m: "missing (agent_context st ''quiz_id'')" by simp_all
  from create_quiz_ok [of source_text num_questions]
  obtain k where c: "create_quiz (JStr source_text) (JInt num_questions)
     = Inr (JObj [(''questions'', JArr (map (question (sentences_of source_text)) [0..<k])),
                  (''count'', JInt (int k))])" by blast
  let ?quiz = "JObj [(''questions'', JArr (map (question (sentences_of source_text)) [0..<k])),
                  (''count'', JInt (int k))]"
  let ?id = "JStr (''quiz_'' @ now_stamp E (clock_reads (state_world st)))"
  from save_quiz_ok [of E "map (question (sentences_of source_text)) [0..<k]"
      "[(''count'', JInt (int k))]" "state_world st"]
  obtain w1 where s: "save_quiz E ?quiz (state_world st)
      = (Inr (JObj [(''quiz_id'', ?id),
                    (''path'', JStr (output_path ((''quiz_'' @ now_stamp E (clock_reads (state_world st)))
                                                   @ ''.json'')))]), w1)"
    by blast
  have t: "truthy ?id" by (simp add: truthy_def)
  have d: "display_quiz ((agent_context st)(''quiz_data'' \<mapsto> ?quiz, ''quiz_id'' \<mapsto> ?id)) = None"
    by (simp add: display_quiz_def py_get_def py_iter_def and_then_def display_questions_ok)
  from p r m c s t d show ?thesis
    by (simp add: coordinator_run_a_def py_get_def take_and_grade_def Let_def grader_called_with_def
        truthy_def)
qed

text \<open>
  Claim C4, as amended. In \<^verbatim>\<open>quiz_slm_fixed.py\<close>, when the quiz master returns a context
  without a quiz identifier, the coordinator reports the failure and returns before the
  grader is called. In \<^verbatim>\<open>quiz_slm_working.py\<close> the coordinator then creates and saves the
  quiz itself and calls the grader with the identifier that the save returns. In both
  files the grader is called only with an identifier that is present.
\<close>

theorem grader_needs_identifier:
  "(fst (run E cl quiz_master_tools (quiz_task num_questions source_text) Map.empty w) = None
      \<and> missing (agent_context
                   (snd (run E cl quiz_master_tools (quiz_task num_questions source_text) Map.empty w))
                   ''quiz_id'')
      \<longrightarrow> coordinator_run E cl source_text num_questions answers w
            = Failed (snd (run E cl quiz_master_tools (quiz_task num_questions source_text) Map.empty w)))
   \<and> (grader_called_with (coordinator_run E cl source_text num_questions answers w)
         = Some (quiz_id, responses) \<longrightarrow> truthy quiz_id)
   \<and> (grader_called_with (coordinator_run_a E cl source_text num_questions answers w)
         = Some (quiz_id, responses) \<longrightarrow> truthy quiz_id)
   \<and> (fst (run_a E cl quiz_master_tools (quiz_task_a num_questions source_text) Map.empty w) = None
      \<and> missing (agent_context
                   (snd (run_a E cl quiz_master_tools (quiz_task_a num_questions source_text) Map.empty w))
                   ''quiz_id'')
      \<longrightarrow> grader_called_with (coordinator_run_a E cl source_text num_questions answers w)
            = Some (JStr (''quiz_'' @ now_stamp E (clock_reads (state_world
                      (snd (run_a E cl quiz_master_tools (quiz_task_a num_questions source_text)
                              Map.empty w))))),
                    parse_answers answers))"
proof (intro conjI impI)
  assume a: "fst (run E cl quiz_master_tools (quiz_task num_questions source_text) Map.empty w) = None
      \<and> missing (agent_context
                   (snd (run E cl quiz_master_tools (quiz_task num_questions source_text) Map.empty w))
                   ''quiz_id'')"
  obtain r st where p: "run E cl quiz_master_tools (quiz_task num_questions source_text) Map.empty w
      = (r, st)"
    by (cases "run E cl quiz_master_tools (quiz_task num_questions source_text) Map.empty w")
  with a have "r = None" and "missing (agent_context st ''quiz_id'')" by simp_all
  with p show "coordinator_run E cl source_text num_questions answers w
            = Failed (snd (run E cl quiz_master_tools (quiz_task num_questions source_text) Map.empty w))"
    by (auto simp add: coordinator_run_def missing_def split: option.splits)
next
  assume "grader_called_with (coordinator_run E cl source_text num_questions answers w)
         = Some (quiz_id, responses)"
  then show "truthy quiz_id" by (rule graded_truthy)
next
  assume "grader_called_with (coordinator_run_a E cl source_text num_questions answers w)
         = Some (quiz_id, responses)"
  then show "truthy quiz_id" by (rule graded_truthy_a)
next
  assume "fst (run_a E cl quiz_master_tools (quiz_task_a num_questions source_text) Map.empty w) = None
      \<and> missing (agent_context
                   (snd (run_a E cl quiz_master_tools (quiz_task_a num_questions source_text) Map.empty w))
                   ''quiz_id'')"
  then show "grader_called_with (coordinator_run_a E cl source_text num_questions answers w)
            = Some (JStr (''quiz_'' @ now_stamp E (clock_reads (state_world
                      (snd (run_a E cl quiz_master_tools (quiz_task_a num_questions source_text)
                              Map.empty w))))),
                    parse_answers answers)"
    using fallback_goes_on by blast
qed

theorem grader_needs_identifier_witness:
  "coordinator_run (python one_second) (says ''done'') water 1 ''A'' empty_world
     = Failed (snd (run (python one_second) (says ''done'') quiz_master_tools (quiz_task 1 water)
                      Map.empty empty_world))
   \<and> grader_called_with (coordinator_run (python one_second) saves_once water 1 ''A'' empty_world)
       = Some (JStr ''quiz_20250101_120000'', [''A''])
   \<and> truthy (JStr ''quiz_20250101_120000'')
   \<and> grader_called_with (coordinator_run_a (python one_second) (says ''done'') water 1 ''A'' empty_world)
       = Some (JStr (''quiz_'' @ now_stamp (python one_second) (clock_reads (state_world
                  (snd (run_a (python one_second) (says ''done'') quiz_master_tools
                          (quiz_task_a 1 water) Map.empty empty_world))))),
               parse_answers ''A'')
   \<and> truthy (JStr (''quiz_'' @ now_stamp (python one_second) (clock_reads (state_world
                  (snd (run_a (python one_second) (says ''done'') quiz_master_tools
                          (quiz_task_a 1 water) Map.empty empty_world))))))"
proof -
  let ?E = "python one_second"
  have h1: "fst (run ?E (says ''done'') quiz_master_tools (quiz_task 1 water) Map.empty empty_world) = None"
    by code_simp
  have h2: "missing (agent_context
               (snd (run ?E (says ''done'') quiz_master_tools (quiz_task 1 water) Map.empty empty_world))
               ''quiz_id'')"
    by code_simp
  have h3: "grader_called_with (coordinator_run ?E saves_once water 1 ''A'' empty_world)
       = Some (JStr ''quiz_20250101_120000'', [''A''])"
    by code_simp
  have h4: "fst (run_a ?E (says ''done'') quiz_master_tools (quiz_task_a 1 water) Map.empty empty_world)
       = None"
    by code_simp
  have h5: "missing (agent_context
               (snd (run_a ?E (says ''done'') quiz_master_tools (quiz_task_a 1 water) Map.empty empty_world))
               ''quiz_id'')"
    by code_simp
  from grader_needs_identifier [where E = ?E and cl = "says ''done''" and source_text = water
      and num_questions = 1 and answers = "''A''" and w = empty_world] h1 h2 h4 h5
  have 1: "coordinator_run ?E (says ''done'') water 1 ''A'' empty_world
     = Failed (snd (run ?E (says ''done'') quiz_master_tools (quiz_task 1 water) Map.empty empty_world))"
    and 2: "grader_called_with (coordinator_run_a ?E (says ''done'') water 1 ''A'' empty_world)
       = Some (JStr (''quiz_'' @ now_stamp ?E (clock_reads (state_world
                  (snd (run_a ?E (says ''done'') quiz_master_tools
                          (quiz_task_a 1 water) Map.empty empty_world))))),
               parse_answers ''A'')"
    by blast+
  from grader_needs_identifier [where E = ?E and cl = saves_once and source_text = water
      and num_questions = 1 and answers = "''A''" and w = empty_world
      and quiz_id = "JStr ''quiz_20250101_120000''" and responses = "[''A'']"] h3
  have 3: "truthy (JStr ''quiz_20250101_120000'')" by blast
  from grader_needs_identifier [where E = ?E and cl = "says ''done''" and source_text = water
      and num_questions = 1 and answers = "''A''" and w = empty_world
      and quiz_id = "JStr (''quiz_'' @ now_stamp ?E (clock_reads (state_world
                  (snd (run_a ?E (says ''done'') quiz_master_tools
                          (quiz_task_a 1 water) Map.empty empty_world)))))"
      and responses = "parse_answers ''A''"] 2
  have 4: "truthy (JStr (''quiz_'' @ now_stamp ?E (clock_reads (state_world
                  (snd (run_a ?E (says ''done'') quiz_master_tools
                          (quiz_task_a 1 water) Map.empty empty_world))))))"
    by blast
  from 1 2 3 4 h3 show ?thesis by blast
qed


text \<open>
  Claim C4 as stated fails for \<^verbatim>\<open>quiz_slm_working.py\<close>: the quiz master ends without a tool
  call and so without an identifier in its context, and the coordinator does not abort;
  it calls the grader with the identifier of the quiz it saved itself.
\<close>

theorem coordinator_fallback_counterexample:
  "fst (run_a (python one_second) (says ''done'') quiz_master_tools (quiz_task_a 1 water)
          Map.empty empty_world) = None
   \<and> agent_context (snd (run_a (python one_second) (says ''done'') quiz_master_tools
                            (quiz_task_a 1 water) Map.empty empty_world)) ''quiz_id'' = None
   \<and> grader_called_with (coordinator_run_a (python one_second) (says ''done'') water 1 ''A'' empty_world)
       = Some (JStr ''quiz_20250101_120000'', [''A''])"
  by code_simp

end
